theory Spec2Isabelle
  imports Complex_Main
begin

section \<open>Face tracking to Live2D parameters (Live2DCameraViewer.tsx)\<close>

text \<open>
  The development embeds the per-frame callback \<open>updateLive2DParameters\<close> of
  \<^verbatim>\<open>next-app/app/move-display/Live2DCameraViewer.tsx\<close> (lines 246 to 441).

  JavaScript numbers are modelled as real numbers with exact arithmetic: rounding, NaN and
  the infinities of IEEE doubles are outside the model. A thrown exception is a value, and a
  block of statements that throws keeps the assignments made before the throw, as the
  closure variables of the source do. Console output is not part of the state.
\<close>

subsection \<open>Exceptions and statement blocks\<close>

datatype exn = TypeError | ExternalError

text \<open>How a block of statements ends: normally, or by a throw, in the state reached.\<close>

datatype 's completion = Normal 's | Throw exn 's

fun block :: "('s \<Rightarrow> 's completion) list \<Rightarrow> 's \<Rightarrow> 's completion" where
  "block [] s = Normal s"
| "block (c # cs) s = (case c s of Normal s' \<Rightarrow> block cs s' | Throw e s' \<Rightarrow> Throw e s')"

subsection \<open>Detector results and solver output\<close>

text \<open>A landmark \<open>{x, y, z}\<close> in normalized image space.\<close>

record landmark =
  pt_x :: real
  pt_y :: real
  pt_z :: real

text \<open>\<open>results.multiFaceLandmarks\<close>: missing, or an array with one landmark array per face.\<close>

record results =
  multiFaceLandmarks :: "landmark list list option"

text \<open>\<open>landmarks[i]\<close>: \<open>undefined\<close> beyond the end of the array.\<close>

definition landmarkAt :: "landmark list \<Rightarrow> nat \<Rightarrow> landmark option" where
  "landmarkAt landmarks i = (if i < length landmarks then Some (landmarks ! i) else None)"

text \<open>Reading a property of \<open>undefined\<close> throws a TypeError.\<close>

definition deref :: "'a option \<Rightarrow> ('a \<Rightarrow> 's \<Rightarrow> 's completion) \<Rightarrow> 's \<Rightarrow> 's completion" where
  "deref ob k s = (case ob of None \<Rightarrow> Throw TypeError s | Some ob' \<Rightarrow> k ob' s)"

text \<open>The fields of the rigging result that the callback reads.\<close>

record headDegrees =
  deg_x :: real
  deg_y :: real
  deg_z :: real

record riggedHead =
  degrees :: headDegrees

record riggedEye =
  eye_l :: real
  eye_r :: real

record riggedPupil =
  pupil_x :: real
  pupil_y :: real

record riggedMouth =
  mouth_x :: "real option"
  mouth_y :: real

record riggedBrow =
  brow_l :: real
  brow_r :: real

record riggedFace =
  head :: "riggedHead option"
  eye :: "riggedEye option"
  pupil :: "riggedPupil option"
  mouth :: "riggedMouth option"
  brow :: "riggedBrow option"

text \<open>
  \<open>Kalidokit.Face.solve\<close> is an external routine, taken as a parameter: it throws, or
  returns nothing, or returns a rigging result. \<open>Kalidokit\<close> itself is absent when its
  import failed.
\<close>

type_synonym faceSolver = "landmark list \<Rightarrow> exn + riggedFace option"

record kalidokitModule =
  Face :: "faceSolver option"

subsection \<open>The puppet\<close>

text \<open>
  Modelled from the spec: the rendering engine's puppet (the Cubism core model behind
  \<open>internalModel.coreModel\<close>) is a third-party object. Its parameter table is an
  association list of names and values; \<open>getParameterIndex\<close> gives the position of a name,
  or \<open>-1\<close> for an unknown name; \<open>setParameterValueById\<close> stores the value at the name.
  Either call may throw for some names, and a call that throws leaves the table as it was.
\<close>

record coreModel =
  parameterTable :: "(string \<times> real) list"
  lookupThrows :: "string \<Rightarrow> bool"
  writeThrows :: "string \<Rightarrow> bool"

fun indexOf :: "string \<Rightarrow> (string \<times> real) list \<Rightarrow> int" where
  "indexOf paramId [] = - 1"
| "indexOf paramId (kv # kvs) =
     (if fst kv = paramId then 0
      else (let i = indexOf paramId kvs in if i < 0 then - 1 else i + 1))"

fun store :: "string \<Rightarrow> real \<Rightarrow> (string \<times> real) list \<Rightarrow> (string \<times> real) list" where
  "store paramId val [] = []"
| "store paramId val (kv # kvs) =
     (if fst kv = paramId then (paramId, val) # kvs else kv # store paramId val kvs)"

definition getParameterIndex :: "coreModel \<Rightarrow> string \<Rightarrow> exn + int" where
  "getParameterIndex cm paramId =
     (if lookupThrows cm paramId then Inl ExternalError
      else Inr (indexOf paramId (parameterTable cm)))"

definition setParameterValueById :: "coreModel \<Rightarrow> string \<Rightarrow> real \<Rightarrow> exn + coreModel" where
  "setParameterValueById cm paramId val =
     (if writeThrows cm paramId then Inl ExternalError
      else Inr (cm\<lparr>parameterTable := store paramId val (parameterTable cm)\<rparr>))"

record internalModel =
  coreModel :: "coreModel option"

record live2dModel =
  internalModel :: "internalModel option"

subsection \<open>Smoother state (lines 246 to 264)\<close>

record smootherState =
  smoothedAngleX :: real
  smoothedAngleY :: real
  smoothedAngleZ :: real
  smoothedBodyAngleX :: real
  smoothedBodyAngleY :: real
  smoothedBodyAngleZ :: real
  smoothedMouthOpen :: real
  smoothedLeftEyeOpen :: real
  smoothedRightEyeOpen :: real
  smoothedEyeX :: real
  smoothedEyeY :: real
  smoothedHeadX :: real
  smoothedHeadY :: real

definition initialSmoother :: smootherState where
  "initialSmoother =
     \<lparr>smoothedAngleX = 0, smoothedAngleY = 0, smoothedAngleZ = 0,
      smoothedBodyAngleX = 0, smoothedBodyAngleY = 0, smoothedBodyAngleZ = 0,
      smoothedMouthOpen = 0, smoothedLeftEyeOpen = 0, smoothedRightEyeOpen = 0,
      smoothedEyeX = 0, smoothedEyeY = 0, smoothedHeadX = 0, smoothedHeadY = 0\<rparr>"

definition SMOOTHING_FACTOR :: real where
  "SMOOTHING_FACTOR = 0.3"

text \<open>What the callback reads and writes: the accumulators, the frame counter, the model.\<close>

record tracker =
  smoother :: smootherState
  debugFrameCount :: nat
  modelRef :: "live2dModel option"

subsection \<open>The parameter applier (lines 289 to 301)\<close>

definition setParameter_try :: "string \<Rightarrow> real \<Rightarrow> internalModel \<Rightarrow> exn + internalModel" where
  "setParameter_try paramId val im =
     (case coreModel im of
        None \<Rightarrow> Inr im
      | Some cm \<Rightarrow>
          (case getParameterIndex cm paramId of
             Inl e \<Rightarrow> Inl e
           | Inr paramIndex \<Rightarrow>
               if paramIndex \<ge> 0 then
                 (case setParameterValueById cm paramId val of
                    Inl e \<Rightarrow> Inl e
                  | Inr cm' \<Rightarrow> Inr (im\<lparr>coreModel := Some cm'\<rparr>))
               else Inr im))"

text \<open>The \<open>catch\<close> clause is empty: the exception is dropped and the call returns.\<close>

definition setParameter :: "string \<Rightarrow> real \<Rightarrow> internalModel \<Rightarrow> exn + internalModel" where
  "setParameter paramId val im =
     (case setParameter_try paramId val im of Inl e \<Rightarrow> Inr im | Inr im' \<Rightarrow> Inr im')"

subsection \<open>Statements of the \<open>try\<close> body\<close>

text \<open>Inside the \<open>try\<close> block the state is the accumulators and the internal model.\<close>

type_synonym frameState = "smootherState \<times> internalModel"

text \<open>An assignment to accumulators.\<close>

definition assign :: "(smootherState \<Rightarrow> smootherState) \<Rightarrow> frameState \<Rightarrow> frameState completion" where
  "assign f st = Normal (f (fst st), snd st)"

text \<open>A call \<open>setParameter(paramId, e)\<close>, with \<open>e\<close> read from the accumulators.\<close>

definition apply_param :: "string \<Rightarrow> (smootherState \<Rightarrow> real) \<Rightarrow> frameState \<Rightarrow> frameState completion" where
  "apply_param paramId e st =
     (case setParameter paramId (e (fst st)) (snd st) of
        Inl ex \<Rightarrow> Throw ex st
      | Inr im' \<Rightarrow> Normal (fst st, im'))"

text \<open>\<open>Math.max(lo, Math.min(hi, v))\<close>, as written at lines 319 to 321 and 428 to 436.\<close>

definition clamp :: "real \<Rightarrow> real \<Rightarrow> real \<Rightarrow> real" where
  "clamp lo hi v = max lo (min hi v)"

subsection \<open>Solver strategy (lines 303 to 377)\<close>

definition headBlock :: "riggedHead \<Rightarrow> frameState \<Rightarrow> frameState completion" where
  "headBlock h =
     (let targetAngleX = clamp (- 30) 30 (deg_x (degrees h));
          targetAngleY = clamp (- 30) 30 (deg_y (degrees h));
          targetAngleZ = clamp (- 30) 30 (deg_z (degrees h))
      in block
        [assign (\<lambda>s. s\<lparr>smoothedAngleX := smoothedAngleX s + (targetAngleX - smoothedAngleX s) * SMOOTHING_FACTOR\<rparr>),
         assign (\<lambda>s. s\<lparr>smoothedAngleY := smoothedAngleY s + (targetAngleY - smoothedAngleY s) * SMOOTHING_FACTOR\<rparr>),
         assign (\<lambda>s. s\<lparr>smoothedAngleZ := smoothedAngleZ s + (targetAngleZ - smoothedAngleZ s) * SMOOTHING_FACTOR\<rparr>),
         apply_param ''ParamAngleX'' smoothedAngleX,
         apply_param ''ParamAngleY'' smoothedAngleY,
         apply_param ''ParamAngleZ'' smoothedAngleZ,
         (\<lambda>st.
            let targetBodyX = smoothedAngleX (fst st) * 0.5;
                targetBodyY = smoothedAngleY (fst st) * 0.5;
                targetBodyZ = smoothedAngleZ (fst st) * 0.5
            in block
              [assign (\<lambda>s. s\<lparr>smoothedBodyAngleX := smoothedBodyAngleX s + (targetBodyX - smoothedBodyAngleX s) * SMOOTHING_FACTOR\<rparr>),
               assign (\<lambda>s. s\<lparr>smoothedBodyAngleY := smoothedBodyAngleY s + (targetBodyY - smoothedBodyAngleY s) * SMOOTHING_FACTOR\<rparr>),
               assign (\<lambda>s. s\<lparr>smoothedBodyAngleZ := smoothedBodyAngleZ s + (targetBodyZ - smoothedBodyAngleZ s) * SMOOTHING_FACTOR\<rparr>),
               apply_param ''ParamBodyAngleX'' smoothedBodyAngleX,
               apply_param ''ParamBodyAngleY'' smoothedBodyAngleY,
               apply_param ''ParamBodyAngleZ'' smoothedBodyAngleZ] st)])"

definition eyeBlock :: "riggedEye \<Rightarrow> frameState \<Rightarrow> frameState completion" where
  "eyeBlock e =
     block [apply_param ''ParamEyeLOpen'' (\<lambda>_. eye_l e),
            apply_param ''ParamEyeROpen'' (\<lambda>_. eye_r e)]"

definition pupilBlock :: "riggedPupil \<Rightarrow> frameState \<Rightarrow> frameState completion" where
  "pupilBlock p =
     block [apply_param ''ParamEyeBallX'' (\<lambda>_. pupil_x p),
            apply_param ''ParamEyeBallY'' (\<lambda>_. pupil_y p)]"

definition mouthBlock :: "riggedMouth \<Rightarrow> frameState \<Rightarrow> frameState completion" where
  "mouthBlock m =
     block [apply_param ''ParamMouthOpenY'' (\<lambda>_. mouth_y m),
            (case mouth_x m of
               None \<Rightarrow> Normal
             | Some mx \<Rightarrow> apply_param ''ParamMouthForm'' (\<lambda>_. mx))]"

definition browBlock :: "riggedBrow \<Rightarrow> frameState \<Rightarrow> frameState completion" where
  "browBlock b =
     block [apply_param ''ParamBrowLY'' (\<lambda>_. brow_l b),
            apply_param ''ParamBrowRY'' (\<lambda>_. brow_r b)]"

text \<open>\<open>if (part) { ... }\<close> on an optional part of the rigging result.\<close>

definition whenPresent :: "'a option \<Rightarrow> ('a \<Rightarrow> 's \<Rightarrow> 's completion) \<Rightarrow> 's \<Rightarrow> 's completion" where
  "whenPresent part k s = (case part of None \<Rightarrow> Normal s | Some p \<Rightarrow> k p s)"

definition solverStrategy :: "faceSolver \<Rightarrow> landmark list \<Rightarrow> frameState \<Rightarrow> frameState completion" where
  "solverStrategy solve landmarks st =
     (case solve landmarks of
        Inl e \<Rightarrow> Throw e st
      | Inr None \<Rightarrow> Normal st
      | Inr (Some riggedFace) \<Rightarrow>
          block
            [whenPresent (head riggedFace) headBlock,
             whenPresent (eye riggedFace) eyeBlock,
             whenPresent (pupil riggedFace) pupilBlock,
             whenPresent (mouth riggedFace) mouthBlock,
             whenPresent (brow riggedFace) browBlock] st)"

subsection \<open>Fallback strategy (lines 378 to 437)\<close>

definition fallbackStrategy :: "landmark list \<Rightarrow> frameState \<Rightarrow> frameState completion" where
  "fallbackStrategy landmarks =
     (let noseTip = landmarkAt landmarks 1;
          leftEye = landmarkAt landmarks 33;
          rightEye = landmarkAt landmarks 263;
          leftEar = landmarkAt landmarks 234;
          rightEar = landmarkAt landmarks 454
      in
      deref leftEye (\<lambda>leftEye. deref rightEye (\<lambda>rightEye.
        let faceCenterX = (pt_x leftEye + pt_x rightEye) / 2;
            faceCenterY = (pt_y leftEye + pt_y rightEye) / 2;
            screenCenterX = 0.5;
            screenCenterY = 0.5;
            headPosX = (faceCenterX - screenCenterX) * 100;
            headPosY = (faceCenterY - screenCenterY) * 100
        in block
          [assign (\<lambda>s. s\<lparr>smoothedHeadX := smoothedHeadX s + (headPosX - smoothedHeadX s) * SMOOTHING_FACTOR\<rparr>),
           assign (\<lambda>s. s\<lparr>smoothedHeadY := smoothedHeadY s + (headPosY - smoothedHeadY s) * SMOOTHING_FACTOR\<rparr>),
           deref noseTip (\<lambda>noseTip.
             let rawAngleX = (pt_x noseTip - faceCenterX) * 200;
                 rawAngleY = (pt_y noseTip - faceCenterY) * 200
             in block
               [assign (\<lambda>s. s\<lparr>smoothedAngleX := smoothedAngleX s + (rawAngleX - smoothedAngleX s) * SMOOTHING_FACTOR\<rparr>),
                assign (\<lambda>s. s\<lparr>smoothedAngleY := smoothedAngleY s + (rawAngleY - smoothedAngleY s) * SMOOTHING_FACTOR\<rparr>),
                deref leftEar (\<lambda>leftEar. deref rightEar (\<lambda>rightEar.
                  let rawAngleZ = (pt_y leftEar - pt_y rightEar) * 200;
                      eyeLookX = (pt_x noseTip - faceCenterX) * 150;
                      eyeLookY = (pt_y noseTip - faceCenterY) * 150;
                      upperLip = landmarkAt landmarks 13;
                      lowerLip = landmarkAt landmarks 14
                  in block
                    [assign (\<lambda>s. s\<lparr>smoothedAngleZ := smoothedAngleZ s + (rawAngleZ - smoothedAngleZ s) * SMOOTHING_FACTOR\<rparr>),
                     assign (\<lambda>s. s\<lparr>smoothedEyeX := smoothedEyeX s + (eyeLookX - smoothedEyeX s) * SMOOTHING_FACTOR\<rparr>),
                     assign (\<lambda>s. s\<lparr>smoothedEyeY := smoothedEyeY s + (eyeLookY - smoothedEyeY s) * SMOOTHING_FACTOR\<rparr>),
                     deref upperLip (\<lambda>upperLip. deref lowerLip (\<lambda>lowerLip.
                       let rawMouthOpen = \<bar>pt_y upperLip - pt_y lowerLip\<bar> * 40;
                           leftEyeTop = landmarkAt landmarks 159;
                           leftEyeBottom = landmarkAt landmarks 145;
                           rightEyeTop = landmarkAt landmarks 386;
                           rightEyeBottom = landmarkAt landmarks 374
                       in block
                         [assign (\<lambda>s. s\<lparr>smoothedMouthOpen := smoothedMouthOpen s + (rawMouthOpen - smoothedMouthOpen s) * SMOOTHING_FACTOR\<rparr>),
                          deref leftEyeTop (\<lambda>leftEyeTop. deref leftEyeBottom (\<lambda>leftEyeBottom.
                          deref rightEyeTop (\<lambda>rightEyeTop. deref rightEyeBottom (\<lambda>rightEyeBottom.
                            let rawLeftEyeOpen = \<bar>pt_y leftEyeTop - pt_y leftEyeBottom\<bar> * 30;
                                rawRightEyeOpen = \<bar>pt_y rightEyeTop - pt_y rightEyeBottom\<bar> * 30
                            in block
                              [assign (\<lambda>s. s\<lparr>smoothedLeftEyeOpen := smoothedLeftEyeOpen s + (rawLeftEyeOpen - smoothedLeftEyeOpen s) * SMOOTHING_FACTOR\<rparr>),
                               assign (\<lambda>s. s\<lparr>smoothedRightEyeOpen := smoothedRightEyeOpen s + (rawRightEyeOpen - smoothedRightEyeOpen s) * SMOOTHING_FACTOR\<rparr>),
                               apply_param ''ParamBodyAngleX'' (\<lambda>s. clamp (- 30) 30 (smoothedHeadX s)),
                               apply_param ''ParamAngleX'' (\<lambda>s. clamp (- 70) 70 (smoothedAngleX s)),
                               apply_param ''ParamAngleY'' (\<lambda>s. clamp (- 70) 70 (smoothedAngleY s)),
                               apply_param ''ParamAngleZ'' (\<lambda>s. clamp (- 50) 50 (smoothedAngleZ s)),
                               apply_param ''ParamMouthOpenY'' (\<lambda>s. clamp 0 1 (smoothedMouthOpen s)),
                               apply_param ''ParamEyeLOpen'' (\<lambda>s. clamp 0 1 (smoothedLeftEyeOpen s)),
                               apply_param ''ParamEyeROpen'' (\<lambda>s. clamp 0 1 (smoothedRightEyeOpen s)),
                               apply_param ''ParamEyeBallX'' (\<lambda>s. clamp (- 1) 1 (smoothedEyeX s)),
                               apply_param ''ParamEyeBallY'' (\<lambda>s. clamp (- 1) 1 (smoothedEyeY s))]))))]))]))])])))"

subsection \<open>The frame driver (lines 266 to 445)\<close>

text \<open>\<open>if (Kalidokit && Kalidokit.Face)\<close> selects the strategy.\<close>

definition strategy :: "kalidokitModule option \<Rightarrow> landmark list \<Rightarrow> frameState \<Rightarrow> frameState completion" where
  "strategy Kalidokit landmarks =
     (case Kalidokit of
        None \<Rightarrow> fallbackStrategy landmarks
      | Some k \<Rightarrow>
          (case Face k of
             None \<Rightarrow> fallbackStrategy landmarks
           | Some solve \<Rightarrow> solverStrategy solve landmarks))"

text \<open>The body of the \<open>try\<close> block: it returns at once when the model has no internal model.\<close>

definition tryBody ::
    "kalidokitModule option \<Rightarrow> landmark list \<Rightarrow> live2dModel \<Rightarrow> smootherState \<Rightarrow>
     (smootherState \<times> live2dModel) completion" where
  "tryBody Kalidokit landmarks model sm =
     (case internalModel model of
        None \<Rightarrow> Normal (sm, model)
      | Some im \<Rightarrow>
          (case strategy Kalidokit landmarks (sm, im) of
             Normal st \<Rightarrow> Normal (fst st, model\<lparr>internalModel := Some (snd st)\<rparr>)
           | Throw e st \<Rightarrow> Throw e (fst st, model\<lparr>internalModel := Some (snd st)\<rparr>)))"

text \<open>The callback. The \<open>catch\<close> clause logs a warning and the callback returns.\<close>

definition updateLive2DParameters ::
    "kalidokitModule option \<Rightarrow> results \<Rightarrow> tracker \<Rightarrow> tracker completion" where
  "updateLive2DParameters Kalidokit res t0 =
     (let t = t0\<lparr>debugFrameCount := debugFrameCount t0 + 1\<rparr> in
      case modelRef t of
        None \<Rightarrow> Normal t
      | Some model \<Rightarrow>
          (case multiFaceLandmarks res of
             None \<Rightarrow> Normal t
           | Some [] \<Rightarrow> Normal t
           | Some (landmarks # others) \<Rightarrow>
               (case tryBody Kalidokit landmarks model (smoother t) of
                  Normal r \<Rightarrow> Normal (t\<lparr>smoother := fst r, modelRef := Some (snd r)\<rparr>)
                | Throw e r \<Rightarrow> Normal (t\<lparr>smoother := fst r, modelRef := Some (snd r)\<rparr>))))"

text \<open>
  \<open>faceMesh.onResults\<close>: the callback runs once per detection result, in order. A callback
  that threw would end the run there.
\<close>

fun runFrames :: "kalidokitModule option \<Rightarrow> results list \<Rightarrow> tracker \<Rightarrow> tracker completion" where
  "runFrames Kalidokit [] t = Normal t"
| "runFrames Kalidokit (res # rest) t =
     (case updateLive2DParameters Kalidokit res t of
        Normal t' \<Rightarrow> runFrames Kalidokit rest t'
      | Throw e t' \<Rightarrow> Throw e t')"

subsection \<open>Observations used in the statements\<close>

text \<open>The state in which a block ended, however it ended.\<close>

fun stateOf :: "'s completion \<Rightarrow> 's" where
  "stateOf (Normal s) = s"
| "stateOf (Throw e s) = s"

text \<open>The internal model after a call of \<open>setParameter\<close>.\<close>

definition applied :: "string \<Rightarrow> real \<Rightarrow> internalModel \<Rightarrow> internalModel" where
  "applied paramId val im = (case setParameter paramId val im of Inl e \<Rightarrow> im | Inr im' \<Rightarrow> im')"

text \<open>The value the puppet holds for a parameter name, if it has that parameter.\<close>

definition paramValue :: "internalModel \<Rightarrow> string \<Rightarrow> real option" where
  "paramValue im q = (case coreModel im of None \<Rightarrow> None | Some cm \<Rightarrow> map_of (parameterTable cm) q)"

text \<open>The puppet has the parameter, and neither the lookup nor the write throws for it.\<close>

definition writable :: "internalModel \<Rightarrow> string \<Rightarrow> bool" where
  "writable im q =
     (case coreModel im of
        None \<Rightarrow> False
      | Some cm \<Rightarrow> \<not> lookupThrows cm q \<and> \<not> writeThrows cm q \<and> 0 \<le> indexOf q (parameterTable cm))"

text \<open>A detection result without a face.\<close>

definition noFace :: "results \<Rightarrow> bool" where
  "noFace res = (case multiFaceLandmarks res of None \<Rightarrow> True | Some faces \<Rightarrow> faces = [])"

text \<open>A model with an internal model is loaded.\<close>

definition ready :: "tracker \<Rightarrow> bool" where
  "ready t =
     (case modelRef t of None \<Rightarrow> False | Some model \<Rightarrow> internalModel model \<noteq> None)"

text \<open>The pose of the puppet held by the tracker: the value of each parameter name.\<close>

definition pose :: "tracker \<Rightarrow> string \<Rightarrow> real option" where
  "pose t q =
     (case modelRef t of
        None \<Rightarrow> None
      | Some model \<Rightarrow> (case internalModel model of None \<Rightarrow> None | Some im \<Rightarrow> paramValue im q))"

definition inRange :: "real \<Rightarrow> real \<Rightarrow> real \<Rightarrow> bool" where
  "inRange lo hi v = (lo \<le> v \<and> v \<le> hi)"

text \<open>The three head-angle accumulators lie in the range of the solver's clamp.\<close>

definition headBounded :: "smootherState \<Rightarrow> bool" where
  "headBounded sm =
     (inRange (- 30) 30 (smoothedAngleX sm) \<and> inRange (- 30) 30 (smoothedAngleY sm) \<and>
      inRange (- 30) 30 (smoothedAngleZ sm))"

definition boundedOpt :: "real option \<Rightarrow> bool" where
  "boundedOpt ov = (case ov of None \<Rightarrow> True | Some v \<Rightarrow> inRange (- 30) 30 v)"

text \<open>The head-angle parameters of the puppet, where it has them, lie in that range.\<close>

definition anglesBounded :: "internalModel \<Rightarrow> bool" where
  "anglesBounded im =
     (boundedOpt (paramValue im ''ParamAngleX'') \<and> boundedOpt (paramValue im ''ParamAngleY'') \<and>
      boundedOpt (paramValue im ''ParamAngleZ''))"

definition poseBounded :: "tracker \<Rightarrow> bool" where
  "poseBounded t =
     (boundedOpt (pose t ''ParamAngleX'') \<and> boundedOpt (pose t ''ParamAngleY'') \<and>
      boundedOpt (pose t ''ParamAngleZ''))"

subsection \<open>Closed forms of the blocks\<close>

text \<open>The internal model after the calls \<open>setParameter(p, v)\<close> for the pairs of a list, in order.\<close>

definition appliedAll :: "(string \<times> real) list \<Rightarrow> internalModel \<Rightarrow> internalModel" where
  "appliedAll ps im = fold (\<lambda>pv. applied (fst pv) (snd pv)) ps im"

text \<open>The accumulators after the head block of the solver strategy.\<close>

definition smoothedHead :: "riggedHead \<Rightarrow> smootherState \<Rightarrow> smootherState" where
  "smoothedHead h sm =
     sm\<lparr>smoothedAngleX := smoothedAngleX sm + (clamp (- 30) 30 (deg_x (degrees h)) - smoothedAngleX sm) * SMOOTHING_FACTOR,
        smoothedAngleY := smoothedAngleY sm + (clamp (- 30) 30 (deg_y (degrees h)) - smoothedAngleY sm) * SMOOTHING_FACTOR,
        smoothedAngleZ := smoothedAngleZ sm + (clamp (- 30) 30 (deg_z (degrees h)) - smoothedAngleZ sm) * SMOOTHING_FACTOR,
        smoothedBodyAngleX := smoothedBodyAngleX sm +
           ((smoothedAngleX sm + (clamp (- 30) 30 (deg_x (degrees h)) - smoothedAngleX sm) * SMOOTHING_FACTOR) * 0.5 - smoothedBodyAngleX sm) * SMOOTHING_FACTOR,
        smoothedBodyAngleY := smoothedBodyAngleY sm +
           ((smoothedAngleY sm + (clamp (- 30) 30 (deg_y (degrees h)) - smoothedAngleY sm) * SMOOTHING_FACTOR) * 0.5 - smoothedBodyAngleY sm) * SMOOTHING_FACTOR,
        smoothedBodyAngleZ := smoothedBodyAngleZ sm +
           ((smoothedAngleZ sm + (clamp (- 30) 30 (deg_z (degrees h)) - smoothedAngleZ sm) * SMOOTHING_FACTOR) * 0.5 - smoothedBodyAngleZ sm) * SMOOTHING_FACTOR\<rparr>"

text \<open>The parameters the head block applies, in order.\<close>

definition headParams :: "smootherState \<Rightarrow> (string \<times> real) list" where
  "headParams sm =
     [(''ParamAngleX'', smoothedAngleX sm), (''ParamAngleY'', smoothedAngleY sm),
      (''ParamAngleZ'', smoothedAngleZ sm), (''ParamBodyAngleX'', smoothedBodyAngleX sm),
      (''ParamBodyAngleY'', smoothedBodyAngleY sm), (''ParamBodyAngleZ'', smoothedBodyAngleZ sm)]"

text \<open>The parameters the solver strategy passes on without smoothing, in order.\<close>

definition passedParams :: "riggedFace \<Rightarrow> (string \<times> real) list" where
  "passedParams rf =
     (case eye rf of None \<Rightarrow> [] | Some e \<Rightarrow> [(''ParamEyeLOpen'', eye_l e), (''ParamEyeROpen'', eye_r e)]) @
     (case pupil rf of None \<Rightarrow> [] | Some p \<Rightarrow> [(''ParamEyeBallX'', pupil_x p), (''ParamEyeBallY'', pupil_y p)]) @
     (case mouth rf of None \<Rightarrow> []
      | Some m \<Rightarrow> (''ParamMouthOpenY'', mouth_y m) #
          (case mouth_x m of None \<Rightarrow> [] | Some mx \<Rightarrow> [(''ParamMouthForm'', mx)])) @
     (case brow rf of None \<Rightarrow> [] | Some b \<Rightarrow> [(''ParamBrowLY'', brow_l b), (''ParamBrowRY'', brow_r b)])"

text \<open>The accumulators after a frame of the fallback strategy that has all its landmarks.\<close>

definition smoothedFallback :: "landmark list \<Rightarrow> smootherState \<Rightarrow> smootherState" where
  "smoothedFallback landmarks sm =
     (let noseTip = landmarks ! 1; leftEye = landmarks ! 33; rightEye = landmarks ! 263;
          leftEar = landmarks ! 234; rightEar = landmarks ! 454;
          upperLip = landmarks ! 13; lowerLip = landmarks ! 14;
          leftEyeTop = landmarks ! 159; leftEyeBottom = landmarks ! 145;
          rightEyeTop = landmarks ! 386; rightEyeBottom = landmarks ! 374;
          faceCenterX = (pt_x leftEye + pt_x rightEye) / 2;
          faceCenterY = (pt_y leftEye + pt_y rightEye) / 2
      in sm\<lparr>smoothedHeadX := smoothedHeadX sm + ((faceCenterX - 0.5) * 100 - smoothedHeadX sm) * SMOOTHING_FACTOR,
             smoothedHeadY := smoothedHeadY sm + ((faceCenterY - 0.5) * 100 - smoothedHeadY sm) * SMOOTHING_FACTOR,
             smoothedAngleX := smoothedAngleX sm + ((pt_x noseTip - faceCenterX) * 200 - smoothedAngleX sm) * SMOOTHING_FACTOR,
             smoothedAngleY := smoothedAngleY sm + ((pt_y noseTip - faceCenterY) * 200 - smoothedAngleY sm) * SMOOTHING_FACTOR,
             smoothedAngleZ := smoothedAngleZ sm + ((pt_y leftEar - pt_y rightEar) * 200 - smoothedAngleZ sm) * SMOOTHING_FACTOR,
             smoothedEyeX := smoothedEyeX sm + ((pt_x noseTip - faceCenterX) * 150 - smoothedEyeX sm) * SMOOTHING_FACTOR,
             smoothedEyeY := smoothedEyeY sm + ((pt_y noseTip - faceCenterY) * 150 - smoothedEyeY sm) * SMOOTHING_FACTOR,
             smoothedMouthOpen := smoothedMouthOpen sm + (\<bar>pt_y upperLip - pt_y lowerLip\<bar> * 40 - smoothedMouthOpen sm) * SMOOTHING_FACTOR,
             smoothedLeftEyeOpen := smoothedLeftEyeOpen sm + (\<bar>pt_y leftEyeTop - pt_y leftEyeBottom\<bar> * 30 - smoothedLeftEyeOpen sm) * SMOOTHING_FACTOR,
             smoothedRightEyeOpen := smoothedRightEyeOpen sm + (\<bar>pt_y rightEyeTop - pt_y rightEyeBottom\<bar> * 30 - smoothedRightEyeOpen sm) * SMOOTHING_FACTOR\<rparr>)"

text \<open>The parameters the fallback strategy applies, in order.\<close>

definition fallbackParams :: "smootherState \<Rightarrow> (string \<times> real) list" where
  "fallbackParams sm =
     [(''ParamBodyAngleX'', clamp (- 30) 30 (smoothedHeadX sm)),
      (''ParamAngleX'', clamp (- 70) 70 (smoothedAngleX sm)),
      (''ParamAngleY'', clamp (- 70) 70 (smoothedAngleY sm)),
      (''ParamAngleZ'', clamp (- 50) 50 (smoothedAngleZ sm)),
      (''ParamMouthOpenY'', clamp 0 1 (smoothedMouthOpen sm)),
      (''ParamEyeLOpen'', clamp 0 1 (smoothedLeftEyeOpen sm)),
      (''ParamEyeROpen'', clamp 0 1 (smoothedRightEyeOpen sm)),
      (''ParamEyeBallX'', clamp (- 1) 1 (smoothedEyeX sm)),
      (''ParamEyeBallY'', clamp (- 1) 1 (smoothedEyeY sm))]"

text \<open>
  The closed form as the specification words it, with the factor 0.3: the accumulator after
  \<open>n\<close> frames of the input \<open>v\<close>, from the start value \<open>a0\<close>.
\<close>

definition settle :: "real \<Rightarrow> real \<Rightarrow> nat \<Rightarrow> real" where
  "settle v a0 n = v + (a0 - v) * (1 - 0.3) ^ n"

subsection \<open>Sample inputs\<close>

text \<open>A solver that reports the same head rotation on every axis and nothing else.\<close>

definition steadySolver :: "real \<Rightarrow> faceSolver" where
  "steadySolver v landmarks =
     Inr (Some \<lparr>head = Some \<lparr>degrees = \<lparr>deg_x = v, deg_y = v, deg_z = v\<rparr>\<rparr>,
                eye = None, pupil = None, mouth = None, brow = None\<rparr>)"

text \<open>A detection result with one face.\<close>

definition faceFrame :: "landmark list \<Rightarrow> results" where
  "faceFrame landmarks = \<lparr>multiFaceLandmarks = Some [landmarks]\<rparr>"

text \<open>A tracker at startup whose model has no core model.\<close>

definition bareTracker :: tracker where
  "bareTracker =
     \<lparr>smoother = initialSmoother, debugFrameCount = 0,
      modelRef = Some \<lparr>internalModel = Some \<lparr>coreModel = None\<rparr>\<rparr>\<rparr>"

text \<open>A point at the centre of the image.\<close>

definition samplePoint :: landmark where
  "samplePoint = \<lparr>pt_x = 0.5, pt_y = 0.5, pt_z = 0\<rparr>"

text \<open>
  A landmark set of 478 points at the centre of the image, with the nose tip to the right of
  it and the lips 0.02 apart.
\<close>

definition sampleLandmarks :: "landmark list" where
  "sampleLandmarks =
     (replicate 478 samplePoint)
       [1 := \<lparr>pt_x = 0.55, pt_y = 0.5, pt_z = 0\<rparr>,
        13 := \<lparr>pt_x = 0.5, pt_y = 0.40, pt_z = 0\<rparr>,
        14 := \<lparr>pt_x = 0.5, pt_y = 0.42, pt_z = 0\<rparr>]"

text \<open>A puppet with three parameters, whose lookup throws for one name and whose write throws for another.\<close>

definition samplePuppet :: internalModel where
  "samplePuppet =
     \<lparr>coreModel = Some
        \<lparr>parameterTable = [(''ParamAngleX'', 0), (''ParamBodyAngleX'', 0), (''ParamMouthOpenY'', 0)],
         lookupThrows = (\<lambda>p. p = ''ParamEyeLOpen''),
         writeThrows = (\<lambda>p. p = ''ParamEyeROpen'')\<rparr>\<rparr>"

text \<open>A tracker at startup with that puppet loaded.\<close>

definition sampleTracker :: tracker where
  "sampleTracker =
     \<lparr>smoother = initialSmoother, debugFrameCount = 0,
      modelRef = Some \<lparr>internalModel = Some samplePuppet\<rparr>\<rparr>"

text \<open>A solver that reports the head rotation (45, -10, 5) and open eyes.\<close>

definition scenarioSolver :: faceSolver where
  "scenarioSolver landmarks =
     Inr (Some \<lparr>head = Some \<lparr>degrees = \<lparr>deg_x = 45, deg_y = - 10, deg_z = 5\<rparr>\<rparr>,
                eye = Some \<lparr>eye_l = 1, eye_r = 1\<rparr>, pupil = None, mouth = None, brow = None\<rparr>)"

text \<open>A tracker with that puppet whose head accumulators rest at 10.\<close>

definition steadyTracker :: tracker where
  "steadyTracker =
     \<lparr>smoother = initialSmoother\<lparr>smoothedAngleX := 10, smoothedAngleY := 10, smoothedAngleZ := 10\<rparr>,
      debugFrameCount = 0,
      modelRef = Some \<lparr>internalModel = Some samplePuppet\<rparr>\<rparr>"

section \<open>Properties\<close>

subsection \<open>The parameter table\<close>

lemma setParameter_applied: "setParameter paramId val im = Inr (applied paramId val im)"
  by (simp add: applied_def setParameter_def split: sum.splits)

lemma apply_param_Normal:
  "apply_param paramId e st = Normal (fst st, applied paramId (e (fst st)) (snd st))"
  by (simp add: apply_param_def setParameter_applied)

lemma indexOf_nonneg: "0 \<le> indexOf p kvs \<longleftrightarrow> p \<in> fst ` set kvs"
  by (induction kvs) (auto simp: Let_def)

lemma map_of_store:
  "map_of (store p v kvs) q = (if q = p \<and> p \<in> fst ` set kvs then Some v else map_of kvs q)"
  by (induction kvs) (auto simp: rev_image_eqI)

lemma keys_store: "fst ` set (store p v kvs) = fst ` set kvs"
  by (induction kvs) auto

lemma indexOf_store: "indexOf q (store p v kvs) = indexOf q kvs"
  by (induction kvs) (auto simp: Let_def)

lemma applied_writable:
  "writable im p \<Longrightarrow> applied p v im =
     im\<lparr>coreModel := Some ((the (coreModel im))\<lparr>parameterTable := store p v (parameterTable (the (coreModel im)))\<rparr>)\<rparr>"
  by (auto simp: applied_def setParameter_def setParameter_try_def writable_def
      getParameterIndex_def setParameterValueById_def split: option.splits)

lemma applied_not_writable: "\<not> writable im p \<Longrightarrow> applied p v im = im"
  by (auto simp: applied_def setParameter_def setParameter_try_def writable_def
      getParameterIndex_def setParameterValueById_def split: option.splits)

lemma paramValue_applied:
  "paramValue (applied p v im) q = (if q = p \<and> writable im p then Some v else paramValue im q)"
proof (cases "writable im p")
  case True
  then show ?thesis
    by (auto simp: applied_writable paramValue_def map_of_store writable_def indexOf_nonneg
        split: option.splits)
next
  case False
  then show ?thesis by (simp add: applied_not_writable)
qed

lemma writable_applied: "writable (applied p v im) q = writable im q"
proof (cases "writable im p")
  case True
  then show ?thesis
    by (auto simp: applied_writable writable_def indexOf_store split: option.splits)
next
  case False
  then show ?thesis by (simp add: applied_not_writable)
qed


subsection \<open>The callback never throws\<close>

lemma update_Normal: "\<exists>t'. updateLive2DParameters K res t = Normal t'"
  by (simp add: updateLive2DParameters_def Let_def split: option.splits list.splits completion.splits)

lemma runFrames_Normal: "\<exists>t'. runFrames K rs t = Normal t'"
proof (induction rs arbitrary: t)
  case Nil
  show ?case by simp
next
  case (Cons r rs)
  obtain t1 where "updateLive2DParameters K r t = Normal t1"
    using update_Normal by blast
  with Cons.IH [of t1] show ?case by simp
qed

lemma update_noFace:
  "noFace res \<Longrightarrow> updateLive2DParameters K res t = Normal (t\<lparr>debugFrameCount := debugFrameCount t + 1\<rparr>)"
  by (auto simp: noFace_def updateLive2DParameters_def Let_def split: option.splits list.splits)

text \<open>
  Claim C4. A frame whose detection result has no face changes no accumulator and writes no
  parameter: after any number of such frames in a row, the accumulators, the model and the
  pose of the puppet are those before the first of them. Only the frame counter advances.
\<close>

theorem C4_face_absent_frames_freeze:
  assumes "\<forall>res \<in> set rs. noFace res"
  shows "\<exists>t'. runFrames K rs t = Normal t' \<and> smoother t' = smoother t \<and>
           modelRef t' = modelRef t \<and> (\<forall>q. pose t' q = pose t q) \<and>
           debugFrameCount t' = debugFrameCount t + length rs"
  using assms
proof (induction rs arbitrary: t)
  case Nil
  show ?case by simp
next
  case (Cons r rs)
  from Cons.prems have r: "noFace r" and rest: "\<forall>res \<in> set rs. noFace res"
    by simp_all
  from Cons.IH [OF rest, of "t\<lparr>debugFrameCount := debugFrameCount t + 1\<rparr>"]
  show ?case by (simp add: update_noFace [OF r] pose_def)
qed

theorem C4_witness:
  "noFace \<lparr>multiFaceLandmarks = None\<rparr> \<and> noFace \<lparr>multiFaceLandmarks = Some []\<rparr> \<and>
   (\<exists>t'. runFrames None [\<lparr>multiFaceLandmarks = None\<rparr>, \<lparr>multiFaceLandmarks = Some []\<rparr>]
            \<lparr>smoother = initialSmoother\<lparr>smoothedAngleX := 12\<rparr>, debugFrameCount = 7, modelRef = None\<rparr> = Normal t' \<and>
         smoothedAngleX (smoother t') = 12 \<and> debugFrameCount t' = 9)"
  using C4_face_absent_frames_freeze [of "[\<lparr>multiFaceLandmarks = None\<rparr>, \<lparr>multiFaceLandmarks = Some []\<rparr>]" None
      "\<lparr>smoother = initialSmoother\<lparr>smoothedAngleX := 12\<rparr>, debugFrameCount = 7, modelRef = None\<rparr>"]
  by (auto simp: noFace_def)

text \<open>
  Claim C7. The clamp \<open>Math.max(lo, Math.min(hi, v))\<close> is a total function: it returns a
  value in the domain unchanged, it is idempotent, it preserves order, and a value outside
  the domain becomes the nearest bound.
\<close>

theorem C7_clamp_saturates:
  "(lo \<le> v \<and> v \<le> hi \<longrightarrow> clamp lo hi v = v) \<and>
   clamp lo hi (clamp lo hi v) = clamp lo hi v \<and>
   (va \<le> vb \<longrightarrow> clamp lo hi va \<le> clamp lo hi vb) \<and>
   (lo \<le> hi \<longrightarrow> lo \<le> clamp lo hi v \<and> clamp lo hi v \<le> hi) \<and>
   (lo \<le> hi \<and> v < lo \<longrightarrow> clamp lo hi v = lo) \<and>
   (lo \<le> hi \<and> hi < v \<longrightarrow> clamp lo hi v = hi)"
  by (auto simp: clamp_def)

theorem C7_witness:
  "(0::real) \<le> 0.8 \<and> (0.8::real) \<le> 1 \<and> clamp 0 1 0.8 = 0.8 \<and>
   (1.5::real) \<le> 2 \<and> clamp 0 1 1.5 \<le> clamp 0 1 2 \<and>
   (0::real) \<le> 1 \<and> (- 3::real) < 0 \<and> clamp 0 1 (- 3) = 0 \<and>
   (1::real) < 1.5 \<and> clamp 0 1 1.5 = 1"
  using C7_clamp_saturates [where lo = 0 and hi = 1 and v = "0.8" and va = "1.5" and vb = 2]
    C7_clamp_saturates [where lo = 0 and hi = 1 and v = "- 3" and va = 0 and vb = 0]
    C7_clamp_saturates [where lo = 0 and hi = 1 and v = "1.5" and va = 0 and vb = 0]
  by simp

subsection \<open>Sequences of parameter writes\<close>

lemma writable_appliedAll: "writable (appliedAll ps im) q = writable im q"
  unfolding appliedAll_def by (induction ps arbitrary: im) (simp_all add: writable_applied)

lemma paramValue_appliedAll:
  "paramValue (appliedAll ps im) q =
     (if writable im q then (case map_of (rev ps) q of None \<Rightarrow> paramValue im q | Some v \<Rightarrow> Some v)
      else paramValue im q)"
proof (induction ps arbitrary: im)
  case Nil
  show ?case by (simp add: appliedAll_def)
next
  case (Cons pv ps)
  have step: "appliedAll (pv # ps) im = appliedAll ps (applied (fst pv) (snd pv) im)"
    by (simp add: appliedAll_def)
  show ?case
    unfolding step Cons.IH
    by (cases pv) (auto simp: writable_applied paramValue_applied map_add_def split: option.splits)
qed

lemma headBlock_eq:
  "headBlock h (sm, im) = Normal (smoothedHead h sm, appliedAll (headParams (smoothedHead h sm)) im)"
  by (simp add: headBlock_def Let_def assign_def apply_param_Normal appliedAll_def smoothedHead_def headParams_def)

lemma scenario_frame:
  "updateLive2DParameters (Some \<lparr>Face = Some (steadySolver v)\<rparr>) (faceFrame [])
     \<lparr>smoother = sm, debugFrameCount = n, modelRef = Some \<lparr>internalModel = Some \<lparr>coreModel = None\<rparr>\<rparr>\<rparr> =
   Normal \<lparr>smoother = sm
      \<lparr>smoothedAngleX := smoothedAngleX sm + (clamp (- 30) 30 v - smoothedAngleX sm) * SMOOTHING_FACTOR,
       smoothedAngleY := smoothedAngleY sm + (clamp (- 30) 30 v - smoothedAngleY sm) * SMOOTHING_FACTOR,
       smoothedAngleZ := smoothedAngleZ sm + (clamp (- 30) 30 v - smoothedAngleZ sm) * SMOOTHING_FACTOR,
       smoothedBodyAngleX := smoothedBodyAngleX sm +
          ((smoothedAngleX sm + (clamp (- 30) 30 v - smoothedAngleX sm) * SMOOTHING_FACTOR) * 0.5 - smoothedBodyAngleX sm) * SMOOTHING_FACTOR,
       smoothedBodyAngleY := smoothedBodyAngleY sm +
          ((smoothedAngleY sm + (clamp (- 30) 30 v - smoothedAngleY sm) * SMOOTHING_FACTOR) * 0.5 - smoothedBodyAngleY sm) * SMOOTHING_FACTOR,
       smoothedBodyAngleZ := smoothedBodyAngleZ sm +
          ((smoothedAngleZ sm + (clamp (- 30) 30 v - smoothedAngleZ sm) * SMOOTHING_FACTOR) * 0.5 - smoothedBodyAngleZ sm) * SMOOTHING_FACTOR\<rparr>,
     debugFrameCount = n + 1, modelRef = Some \<lparr>internalModel = Some \<lparr>coreModel = None\<rparr>\<rparr>\<rparr>"
  by (simp add: updateLive2DParameters_def Let_def faceFrame_def tryBody_def strategy_def
      solverStrategy_def steadySolver_def whenPresent_def headBlock_def assign_def
      apply_param_Normal applied_not_writable writable_def)

lemma scenario_values:
  "map (\<lambda>rs. smoothedAngleX (smoother (stateOf (runFrames (Some \<lparr>Face = Some (steadySolver 10)\<rparr>) rs bareTracker))))
     [faceFrame [] # [], [faceFrame [], faceFrame []], [faceFrame [], faceFrame [], faceFrame []],
      [faceFrame [], faceFrame [], faceFrame [], faceFrame []]] =
   [3.0, 5.1, 6.57, 7.599]"
  by (simp add: bareTracker_def scenario_frame initialSmoother_def clamp_def SMOOTHING_FACTOR_def)

lemma fallbackStrategy_eq:
  assumes "454 < length landmarks"
  shows "fallbackStrategy landmarks (sm, im) =
     Normal (smoothedFallback landmarks sm, appliedAll (fallbackParams (smoothedFallback landmarks sm)) im)"
  using assms
  by (simp add: fallbackStrategy_def Let_def deref_def landmarkAt_def assign_def apply_param_Normal
      appliedAll_def smoothedFallback_def fallbackParams_def)

subsection \<open>The sample inputs\<close>

lemma sampleLandmarks_length: "length sampleLandmarks = 478"
  by (simp add: sampleLandmarks_def)

lemma sampleLandmarks_nth:
  "sampleLandmarks ! 1 = \<lparr>pt_x = 0.55, pt_y = 0.5, pt_z = 0\<rparr>"
  "sampleLandmarks ! Suc 0 = \<lparr>pt_x = 0.55, pt_y = 0.5, pt_z = 0\<rparr>"
  "sampleLandmarks ! 13 = \<lparr>pt_x = 0.5, pt_y = 0.40, pt_z = 0\<rparr>"
  "sampleLandmarks ! 14 = \<lparr>pt_x = 0.5, pt_y = 0.42, pt_z = 0\<rparr>"
  "sampleLandmarks ! 33 = samplePoint" "sampleLandmarks ! 263 = samplePoint"
  "sampleLandmarks ! 234 = samplePoint" "sampleLandmarks ! 454 = samplePoint"
  "sampleLandmarks ! 159 = samplePoint" "sampleLandmarks ! 145 = samplePoint"
  "sampleLandmarks ! 386 = samplePoint" "sampleLandmarks ! 374 = samplePoint"
  by (simp_all add: sampleLandmarks_def)

lemma samplePuppet_writable:
  "writable samplePuppet ''ParamAngleX''" "writable samplePuppet ''ParamBodyAngleX''"
  "writable samplePuppet ''ParamMouthOpenY''" "\<not> writable samplePuppet ''ParamBrowLY''"
  "\<not> writable samplePuppet ''ParamEyeLOpen''" "\<not> writable samplePuppet ''ParamEyeROpen''"
  by (simp_all add: samplePuppet_def writable_def)

text \<open>
  Claim C8. \<open>setParameter\<close> never throws. It stores the value when the puppet has the
  parameter and neither the lookup nor the write throws; in every other case (no core model,
  unknown name, a throw in the lookup or in the write) the puppet is unchanged. No other
  parameter changes. So in a frame of the fallback strategy each of the nine parameters that
  can be written is written, whatever happens to the others.
\<close>

theorem C8_setParameter_never_throws:
  "(\<exists>im'. setParameter paramId val im = Inr im' \<and>
      (\<forall>q. paramValue im' q = (if q = paramId \<and> writable im paramId then Some val else paramValue im q)) \<and>
      (\<not> writable im paramId \<longrightarrow> im' = im)) \<and>
   (paramValue im paramId = None \<longrightarrow> \<not> writable im paramId) \<and>
   (coreModel im = Some cm \<and> (lookupThrows cm paramId \<or> writeThrows cm paramId) \<longrightarrow> \<not> writable im paramId) \<and>
   (454 < length landmarks \<longrightarrow>
      (\<exists>sm' im'. fallbackStrategy landmarks (sm, im) = Normal (sm', im') \<and>
         map (paramValue im')
           [''ParamBodyAngleX'', ''ParamAngleX'', ''ParamAngleY'', ''ParamAngleZ'', ''ParamMouthOpenY'',
            ''ParamEyeLOpen'', ''ParamEyeROpen'', ''ParamEyeBallX'', ''ParamEyeBallY''] =
         [if writable im ''ParamBodyAngleX'' then Some (clamp (- 30) 30 (smoothedHeadX sm')) else paramValue im ''ParamBodyAngleX'',
          if writable im ''ParamAngleX'' then Some (clamp (- 70) 70 (smoothedAngleX sm')) else paramValue im ''ParamAngleX'',
          if writable im ''ParamAngleY'' then Some (clamp (- 70) 70 (smoothedAngleY sm')) else paramValue im ''ParamAngleY'',
          if writable im ''ParamAngleZ'' then Some (clamp (- 50) 50 (smoothedAngleZ sm')) else paramValue im ''ParamAngleZ'',
          if writable im ''ParamMouthOpenY'' then Some (clamp 0 1 (smoothedMouthOpen sm')) else paramValue im ''ParamMouthOpenY'',
          if writable im ''ParamEyeLOpen'' then Some (clamp 0 1 (smoothedLeftEyeOpen sm')) else paramValue im ''ParamEyeLOpen'',
          if writable im ''ParamEyeROpen'' then Some (clamp 0 1 (smoothedRightEyeOpen sm')) else paramValue im ''ParamEyeROpen'',
          if writable im ''ParamEyeBallX'' then Some (clamp (- 1) 1 (smoothedEyeX sm')) else paramValue im ''ParamEyeBallX'',
          if writable im ''ParamEyeBallY'' then Some (clamp (- 1) 1 (smoothedEyeY sm')) else paramValue im ''ParamEyeBallY'']))"
proof -
  have a: "\<exists>im'. setParameter paramId val im = Inr im' \<and>
      (\<forall>q. paramValue im' q = (if q = paramId \<and> writable im paramId then Some val else paramValue im q)) \<and>
      (\<not> writable im paramId \<longrightarrow> im' = im)"
    by (simp add: setParameter_applied paramValue_applied applied_not_writable)
  have b: "paramValue im paramId = None \<longrightarrow> \<not> writable im paramId"
    by (auto simp: paramValue_def writable_def indexOf_nonneg map_of_eq_None_iff split: option.splits)
  have c: "coreModel im = Some cm \<and> (lookupThrows cm paramId \<or> writeThrows cm paramId) \<longrightarrow> \<not> writable im paramId"
    by (auto simp: writable_def)
  have d: "454 < length landmarks \<longrightarrow>
      (\<exists>sm' im'. fallbackStrategy landmarks (sm, im) = Normal (sm', im') \<and>
         map (paramValue im')
           [''ParamBodyAngleX'', ''ParamAngleX'', ''ParamAngleY'', ''ParamAngleZ'', ''ParamMouthOpenY'',
            ''ParamEyeLOpen'', ''ParamEyeROpen'', ''ParamEyeBallX'', ''ParamEyeBallY''] =
         [if writable im ''ParamBodyAngleX'' then Some (clamp (- 30) 30 (smoothedHeadX sm')) else paramValue im ''ParamBodyAngleX'',
          if writable im ''ParamAngleX'' then Some (clamp (- 70) 70 (smoothedAngleX sm')) else paramValue im ''ParamAngleX'',
          if writable im ''ParamAngleY'' then Some (clamp (- 70) 70 (smoothedAngleY sm')) else paramValue im ''ParamAngleY'',
          if writable im ''ParamAngleZ'' then Some (clamp (- 50) 50 (smoothedAngleZ sm')) else paramValue im ''ParamAngleZ'',
          if writable im ''ParamMouthOpenY'' then Some (clamp 0 1 (smoothedMouthOpen sm')) else paramValue im ''ParamMouthOpenY'',
          if writable im ''ParamEyeLOpen'' then Some (clamp 0 1 (smoothedLeftEyeOpen sm')) else paramValue im ''ParamEyeLOpen'',
          if writable im ''ParamEyeROpen'' then Some (clamp 0 1 (smoothedRightEyeOpen sm')) else paramValue im ''ParamEyeROpen'',
          if writable im ''ParamEyeBallX'' then Some (clamp (- 1) 1 (smoothedEyeX sm')) else paramValue im ''ParamEyeBallX'',
          if writable im ''ParamEyeBallY'' then Some (clamp (- 1) 1 (smoothedEyeY sm')) else paramValue im ''ParamEyeBallY''])"
    by (simp add: fallbackStrategy_eq paramValue_appliedAll fallbackParams_def)
  from a b c d show ?thesis by blast
qed

theorem C8_witness:
  "\<not> writable samplePuppet ''ParamBrowLY'' \<and> paramValue samplePuppet ''ParamBrowLY'' = None \<and>
   setParameter ''ParamBrowLY'' 1 samplePuppet = Inr samplePuppet \<and>
   coreModel samplePuppet \<noteq> None \<and> lookupThrows (the (coreModel samplePuppet)) ''ParamEyeLOpen'' \<and>
   setParameter ''ParamEyeLOpen'' 1 samplePuppet = Inr samplePuppet \<and>
   454 < length sampleLandmarks \<and>
   (\<exists>sm' im'. fallbackStrategy sampleLandmarks (initialSmoother, samplePuppet) = Normal (sm', im') \<and>
      paramValue im' ''ParamMouthOpenY'' = Some (clamp 0 1 (smoothedMouthOpen sm')) \<and>
      paramValue im' ''ParamEyeLOpen'' = None)"
  using C8_setParameter_never_throws [of "''ParamBrowLY''" 1 samplePuppet "the (coreModel samplePuppet)" sampleLandmarks initialSmoother]
    C8_setParameter_never_throws [of "''ParamEyeLOpen''" 1 samplePuppet "the (coreModel samplePuppet)" sampleLandmarks initialSmoother]
  by (auto simp: samplePuppet_writable sampleLandmarks_length)
    (simp_all add: samplePuppet_def paramValue_def)

text \<open>
  Claim C6. For a landmark set that has the landmarks the fallback strategy reads, the
  inputs of the moving averages are the fixed formulas of the nose tip, the eye corners, the
  ear points, the lips and the eyelids; lips at heights 0.40 and 0.42 give the mouth input 0.8.
\<close>

theorem C6_fallback_raw_signals:
  assumes "454 < length landmarks"
  shows "\<exists>sm' im'. fallbackStrategy landmarks (sm, im) = Normal (sm', im') \<and>
    (let noseTip = landmarks ! 1; leftEar = landmarks ! 234; rightEar = landmarks ! 454;
         upperLip = landmarks ! 13; lowerLip = landmarks ! 14;
         faceCenterX = (pt_x (landmarks ! 33) + pt_x (landmarks ! 263)) / 2;
         faceCenterY = (pt_y (landmarks ! 33) + pt_y (landmarks ! 263)) / 2
     in smoothedAngleX sm' = smoothedAngleX sm + ((pt_x noseTip - faceCenterX) * 200 - smoothedAngleX sm) * SMOOTHING_FACTOR \<and>
        smoothedAngleY sm' = smoothedAngleY sm + ((pt_y noseTip - faceCenterY) * 200 - smoothedAngleY sm) * SMOOTHING_FACTOR \<and>
        smoothedAngleZ sm' = smoothedAngleZ sm + ((pt_y leftEar - pt_y rightEar) * 200 - smoothedAngleZ sm) * SMOOTHING_FACTOR \<and>
        smoothedEyeX sm' = smoothedEyeX sm + ((pt_x noseTip - faceCenterX) * 150 - smoothedEyeX sm) * SMOOTHING_FACTOR \<and>
        smoothedEyeY sm' = smoothedEyeY sm + ((pt_y noseTip - faceCenterY) * 150 - smoothedEyeY sm) * SMOOTHING_FACTOR \<and>
        smoothedMouthOpen sm' = smoothedMouthOpen sm + (\<bar>pt_y upperLip - pt_y lowerLip\<bar> * 40 - smoothedMouthOpen sm) * SMOOTHING_FACTOR \<and>
        smoothedLeftEyeOpen sm' = smoothedLeftEyeOpen sm +
          (\<bar>pt_y (landmarks ! 159) - pt_y (landmarks ! 145)\<bar> * 30 - smoothedLeftEyeOpen sm) * SMOOTHING_FACTOR \<and>
        smoothedRightEyeOpen sm' = smoothedRightEyeOpen sm +
          (\<bar>pt_y (landmarks ! 386) - pt_y (landmarks ! 374)\<bar> * 30 - smoothedRightEyeOpen sm) * SMOOTHING_FACTOR \<and>
        (if pt_y upperLip = 0.40 \<and> pt_y lowerLip = 0.42
         then smoothedMouthOpen sm' = smoothedMouthOpen sm + (0.8 - smoothedMouthOpen sm) * SMOOTHING_FACTOR
         else True))"
  by (simp add: fallbackStrategy_eq [OF assms] smoothedFallback_def Let_def)

theorem C6_witness:
  "454 < length sampleLandmarks \<and>
   (\<exists>sm' im'. fallbackStrategy sampleLandmarks (initialSmoother, samplePuppet) = Normal (sm', im') \<and>
      smoothedMouthOpen sm' = 0 + (0.8 - 0) * 0.3 \<and> smoothedAngleX sm' = 0 + ((0.55 - 0.5) * 200 - 0) * 0.3)"
proof -
  have len: "454 < length sampleLandmarks"
    by (simp add: sampleLandmarks_length)
  from C6_fallback_raw_signals [OF len, of initialSmoother samplePuppet]
  show ?thesis
    by (auto simp: len Let_def sampleLandmarks_nth samplePoint_def initialSmoother_def SMOOTHING_FACTOR_def)
qed

text \<open>
  Claim C1. Every accumulator starts at 0 and the factor is 0.3. In both strategies every
  assignment to an accumulator has the form \<open>s + (raw - s) * 0.3\<close>: six accumulators in
  the head block of the solver strategy, ten in the fallback strategy. Four frames with the
  constant input 10 take the accumulator from 0 through 3.0, 5.1, 6.57 and 7.599.
\<close>

theorem C1_moving_average_update:
  "initialSmoother =
     \<lparr>smoothedAngleX = 0, smoothedAngleY = 0, smoothedAngleZ = 0,
      smoothedBodyAngleX = 0, smoothedBodyAngleY = 0, smoothedBodyAngleZ = 0,
      smoothedMouthOpen = 0, smoothedLeftEyeOpen = 0, smoothedRightEyeOpen = 0,
      smoothedEyeX = 0, smoothedEyeY = 0, smoothedHeadX = 0, smoothedHeadY = 0\<rparr> \<and>
   SMOOTHING_FACTOR = 0.3 \<and>
   (\<exists>im'. headBlock h (sm, im) = Normal
      (let targetAngleX = clamp (- 30) 30 (deg_x (degrees h));
           targetAngleY = clamp (- 30) 30 (deg_y (degrees h));
           targetAngleZ = clamp (- 30) 30 (deg_z (degrees h));
           headX = smoothedAngleX sm + (targetAngleX - smoothedAngleX sm) * 0.3;
           headY = smoothedAngleY sm + (targetAngleY - smoothedAngleY sm) * 0.3;
           headZ = smoothedAngleZ sm + (targetAngleZ - smoothedAngleZ sm) * 0.3
       in sm\<lparr>smoothedAngleX := headX, smoothedAngleY := headY, smoothedAngleZ := headZ,
              smoothedBodyAngleX := smoothedBodyAngleX sm + (headX * 0.5 - smoothedBodyAngleX sm) * 0.3,
              smoothedBodyAngleY := smoothedBodyAngleY sm + (headY * 0.5 - smoothedBodyAngleY sm) * 0.3,
              smoothedBodyAngleZ := smoothedBodyAngleZ sm + (headZ * 0.5 - smoothedBodyAngleZ sm) * 0.3\<rparr>,
       im')) \<and>
   (454 < length landmarks \<longrightarrow>
     (\<exists>im'. fallbackStrategy landmarks (sm, im) = Normal
       (let noseTip = landmarks ! 1; leftEye = landmarks ! 33; rightEye = landmarks ! 263;
            leftEar = landmarks ! 234; rightEar = landmarks ! 454;
            upperLip = landmarks ! 13; lowerLip = landmarks ! 14;
            leftEyeTop = landmarks ! 159; leftEyeBottom = landmarks ! 145;
            rightEyeTop = landmarks ! 386; rightEyeBottom = landmarks ! 374;
            faceCenterX = (pt_x leftEye + pt_x rightEye) / 2;
            faceCenterY = (pt_y leftEye + pt_y rightEye) / 2
        in sm\<lparr>smoothedHeadX := smoothedHeadX sm + ((faceCenterX - 0.5) * 100 - smoothedHeadX sm) * 0.3,
               smoothedHeadY := smoothedHeadY sm + ((faceCenterY - 0.5) * 100 - smoothedHeadY sm) * 0.3,
               smoothedAngleX := smoothedAngleX sm + ((pt_x noseTip - faceCenterX) * 200 - smoothedAngleX sm) * 0.3,
               smoothedAngleY := smoothedAngleY sm + ((pt_y noseTip - faceCenterY) * 200 - smoothedAngleY sm) * 0.3,
               smoothedAngleZ := smoothedAngleZ sm + ((pt_y leftEar - pt_y rightEar) * 200 - smoothedAngleZ sm) * 0.3,
               smoothedEyeX := smoothedEyeX sm + ((pt_x noseTip - faceCenterX) * 150 - smoothedEyeX sm) * 0.3,
               smoothedEyeY := smoothedEyeY sm + ((pt_y noseTip - faceCenterY) * 150 - smoothedEyeY sm) * 0.3,
               smoothedMouthOpen := smoothedMouthOpen sm + (\<bar>pt_y upperLip - pt_y lowerLip\<bar> * 40 - smoothedMouthOpen sm) * 0.3,
               smoothedLeftEyeOpen := smoothedLeftEyeOpen sm + (\<bar>pt_y leftEyeTop - pt_y leftEyeBottom\<bar> * 30 - smoothedLeftEyeOpen sm) * 0.3,
               smoothedRightEyeOpen := smoothedRightEyeOpen sm + (\<bar>pt_y rightEyeTop - pt_y rightEyeBottom\<bar> * 30 - smoothedRightEyeOpen sm) * 0.3\<rparr>,
        im'))) \<and>
   map (\<lambda>rs. smoothedAngleX (smoother (stateOf (runFrames (Some \<lparr>Face = Some (steadySolver 10)\<rparr>) rs bareTracker))))
     [faceFrame [] # [], [faceFrame [], faceFrame []], [faceFrame [], faceFrame [], faceFrame []],
      [faceFrame [], faceFrame [], faceFrame [], faceFrame []]] =
   [3.0, 5.1, 6.57, 7.599]"
proof -
  have a: "SMOOTHING_FACTOR = 0.3"
    by (simp add: SMOOTHING_FACTOR_def)
  have b: "\<exists>im'. headBlock h (sm, im) = Normal
      (let targetAngleX = clamp (- 30) 30 (deg_x (degrees h));
           targetAngleY = clamp (- 30) 30 (deg_y (degrees h));
           targetAngleZ = clamp (- 30) 30 (deg_z (degrees h));
           headX = smoothedAngleX sm + (targetAngleX - smoothedAngleX sm) * 0.3;
           headY = smoothedAngleY sm + (targetAngleY - smoothedAngleY sm) * 0.3;
           headZ = smoothedAngleZ sm + (targetAngleZ - smoothedAngleZ sm) * 0.3
       in sm\<lparr>smoothedAngleX := headX, smoothedAngleY := headY, smoothedAngleZ := headZ,
              smoothedBodyAngleX := smoothedBodyAngleX sm + (headX * 0.5 - smoothedBodyAngleX sm) * 0.3,
              smoothedBodyAngleY := smoothedBodyAngleY sm + (headY * 0.5 - smoothedBodyAngleY sm) * 0.3,
              smoothedBodyAngleZ := smoothedBodyAngleZ sm + (headZ * 0.5 - smoothedBodyAngleZ sm) * 0.3\<rparr>,
       im')"
    by (simp add: headBlock_eq smoothedHead_def Let_def a)
  have c: "454 < length landmarks \<longrightarrow>
     (\<exists>im'. fallbackStrategy landmarks (sm, im) = Normal
       (let noseTip = landmarks ! 1; leftEye = landmarks ! 33; rightEye = landmarks ! 263;
            leftEar = landmarks ! 234; rightEar = landmarks ! 454;
            upperLip = landmarks ! 13; lowerLip = landmarks ! 14;
            leftEyeTop = landmarks ! 159; leftEyeBottom = landmarks ! 145;
            rightEyeTop = landmarks ! 386; rightEyeBottom = landmarks ! 374;
            faceCenterX = (pt_x leftEye + pt_x rightEye) / 2;
            faceCenterY = (pt_y leftEye + pt_y rightEye) / 2
        in sm\<lparr>smoothedHeadX := smoothedHeadX sm + ((faceCenterX - 0.5) * 100 - smoothedHeadX sm) * 0.3,
               smoothedHeadY := smoothedHeadY sm + ((faceCenterY - 0.5) * 100 - smoothedHeadY sm) * 0.3,
               smoothedAngleX := smoothedAngleX sm + ((pt_x noseTip - faceCenterX) * 200 - smoothedAngleX sm) * 0.3,
               smoothedAngleY := smoothedAngleY sm + ((pt_y noseTip - faceCenterY) * 200 - smoothedAngleY sm) * 0.3,
               smoothedAngleZ := smoothedAngleZ sm + ((pt_y leftEar - pt_y rightEar) * 200 - smoothedAngleZ sm) * 0.3,
               smoothedEyeX := smoothedEyeX sm + ((pt_x noseTip - faceCenterX) * 150 - smoothedEyeX sm) * 0.3,
               smoothedEyeY := smoothedEyeY sm + ((pt_y noseTip - faceCenterY) * 150 - smoothedEyeY sm) * 0.3,
               smoothedMouthOpen := smoothedMouthOpen sm + (\<bar>pt_y upperLip - pt_y lowerLip\<bar> * 40 - smoothedMouthOpen sm) * 0.3,
               smoothedLeftEyeOpen := smoothedLeftEyeOpen sm + (\<bar>pt_y leftEyeTop - pt_y leftEyeBottom\<bar> * 30 - smoothedLeftEyeOpen sm) * 0.3,
               smoothedRightEyeOpen := smoothedRightEyeOpen sm + (\<bar>pt_y rightEyeTop - pt_y rightEyeBottom\<bar> * 30 - smoothedRightEyeOpen sm) * 0.3\<rparr>,
        im'))"
    by (simp add: fallbackStrategy_eq smoothedFallback_def Let_def a)
  from a b c scenario_values show ?thesis
    unfolding initialSmoother_def by blast
qed

theorem C1_witness:
  "454 < length sampleLandmarks \<and>
   (\<exists>im'. fallbackStrategy sampleLandmarks (initialSmoother, samplePuppet) = Normal
      (initialSmoother\<lparr>smoothedAngleX := 3, smoothedEyeX := 2.25, smoothedMouthOpen := 0.24\<rparr>, im'))"
  using C1_moving_average_update [of "\<lparr>degrees = \<lparr>deg_x = 0, deg_y = 0, deg_z = 0\<rparr>\<rparr>"
      initialSmoother samplePuppet sampleLandmarks]
  by (simp add: Let_def sampleLandmarks_length sampleLandmarks_nth samplePoint_def initialSmoother_def)

subsection \<open>Frames\<close>

lemma update_face:
  assumes "modelRef t = Some model" and "internalModel model = Some im"
  shows "updateLive2DParameters K \<lparr>multiFaceLandmarks = Some (landmarks # others)\<rparr> t =
     Normal (t\<lparr>debugFrameCount := debugFrameCount t + 1,
               smoother := fst (stateOf (strategy K landmarks (smoother t, im))),
               modelRef := Some (model\<lparr>internalModel := Some (snd (stateOf (strategy K landmarks (smoother t, im))))\<rparr>)\<rparr>)"
  using assms
  by (simp add: updateLive2DParameters_def Let_def tryBody_def split: completion.splits)

lemma ready_cases:
  assumes "ready t"
  obtains model im where "modelRef t = Some model" and "internalModel model = Some im"
  using assms by (auto simp: ready_def split: option.splits)

lemma fallback_frame:
  assumes "ready t" and "454 < length landmarks"
  shows "\<exists>t'. updateLive2DParameters None (faceFrame landmarks) t = Normal t' \<and> ready t' \<and>
           smoother t' = smoothedFallback landmarks (smoother t)"
proof -
  from assms(1) obtain model im where m: "modelRef t = Some model" "internalModel model = Some im"
    by (rule ready_cases)
  show ?thesis
    unfolding faceFrame_def update_face [OF m]
    by (simp add: strategy_def fallbackStrategy_eq [OF assms(2)] ready_def)
qed

lemma fallback_frames:
  assumes "454 < length landmarks"
  shows "ready t \<Longrightarrow> \<exists>t'. runFrames None (replicate n (faceFrame landmarks)) t = Normal t' \<and> ready t' \<and>
           smoother t' = (smoothedFallback landmarks ^^ n) (smoother t)"
proof (induction n arbitrary: t)
  case 0
  then show ?case by simp
next
  case (Suc n)
  from fallback_frame [OF Suc.prems assms] obtain t1 where
    t1: "updateLive2DParameters None (faceFrame landmarks) t = Normal t1" "ready t1"
      "smoother t1 = smoothedFallback landmarks (smoother t)"
    by blast
  from Suc.IH [OF t1(2)] t1(1,3) show ?case
    by (simp add: funpow_swap1)
qed

lemma geometric_step:
  fixes a v p :: real
  shows "(v + (a - v) * p) + (v - (v + (a - v) * p)) * 0.3 = v + (a - v) * ((1 - 0.3) * p)"
  by (simp add: field_simps)

lemma geometric_limit:
  fixes a v :: real
  shows "(\<lambda>n. v + (a - v) * (1 - 0.3) ^ n) \<longlonglongrightarrow> v"
proof -
  have "(\<lambda>n. (1 - 0.3 :: real) ^ n) \<longlonglongrightarrow> 0"
    by (rule LIMSEQ_realpow_zero) simp_all
  then have "(\<lambda>n. (a - v) * (1 - 0.3) ^ n) \<longlonglongrightarrow> (a - v) * 0"
    by (rule tendsto_mult_left)
  then have "(\<lambda>n. v + (a - v) * (1 - 0.3) ^ n) \<longlonglongrightarrow> v + (a - v) * 0"
    by (rule tendsto_add [OF tendsto_const])
  then show ?thesis by simp
qed

subsection \<open>Where a strategy can throw\<close>

lemma whenPresent_headBlock:
  "whenPresent part headBlock (sm, im) =
     Normal (case part of None \<Rightarrow> (sm, im)
             | Some h \<Rightarrow> (smoothedHead h sm, appliedAll (headParams (smoothedHead h sm)) im))"
  by (simp add: whenPresent_def headBlock_eq split: option.splits)

lemma eyeBlock_eq:
  "eyeBlock e (sm, im) = Normal (sm, appliedAll [(''ParamEyeLOpen'', eye_l e), (''ParamEyeROpen'', eye_r e)] im)"
  by (simp add: eyeBlock_def apply_param_Normal appliedAll_def)

lemma pupilBlock_eq:
  "pupilBlock p (sm, im) = Normal (sm, appliedAll [(''ParamEyeBallX'', pupil_x p), (''ParamEyeBallY'', pupil_y p)] im)"
  by (simp add: pupilBlock_def apply_param_Normal appliedAll_def)

lemma mouthBlock_eq:
  "mouthBlock m (sm, im) = Normal (sm, appliedAll
     ((''ParamMouthOpenY'', mouth_y m) # (case mouth_x m of None \<Rightarrow> [] | Some mx \<Rightarrow> [(''ParamMouthForm'', mx)])) im)"
  by (simp add: mouthBlock_def apply_param_Normal appliedAll_def split: option.splits)

lemma browBlock_eq:
  "browBlock b (sm, im) = Normal (sm, appliedAll [(''ParamBrowLY'', brow_l b), (''ParamBrowRY'', brow_r b)] im)"
  by (simp add: browBlock_def apply_param_Normal appliedAll_def)

lemma appliedAll_append: "appliedAll (ps @ qs) im = appliedAll qs (appliedAll ps im)"
  by (simp add: appliedAll_def)

lemma appliedAll_Nil: "appliedAll [] im = im"
  by (simp add: appliedAll_def)

lemma solver_rest:
  "block [whenPresent (eye rf) eyeBlock, whenPresent (pupil rf) pupilBlock,
          whenPresent (mouth rf) mouthBlock, whenPresent (brow rf) browBlock] (sm, im) =
   Normal (sm, appliedAll (passedParams rf) im)"
proof -
  have e: "whenPresent (eye rf) eyeBlock (sm, i) =
      Normal (sm, appliedAll (case eye rf of None \<Rightarrow> [] | Some e \<Rightarrow> [(''ParamEyeLOpen'', eye_l e), (''ParamEyeROpen'', eye_r e)]) i)" for i
    by (simp add: whenPresent_def eyeBlock_eq appliedAll_Nil split: option.splits)
  have p: "whenPresent (pupil rf) pupilBlock (sm, i) =
      Normal (sm, appliedAll (case pupil rf of None \<Rightarrow> [] | Some p \<Rightarrow> [(''ParamEyeBallX'', pupil_x p), (''ParamEyeBallY'', pupil_y p)]) i)" for i
    by (simp add: whenPresent_def pupilBlock_eq appliedAll_Nil split: option.splits)
  have m: "whenPresent (mouth rf) mouthBlock (sm, i) =
      Normal (sm, appliedAll (case mouth rf of None \<Rightarrow> []
        | Some m \<Rightarrow> (''ParamMouthOpenY'', mouth_y m) #
            (case mouth_x m of None \<Rightarrow> [] | Some mx \<Rightarrow> [(''ParamMouthForm'', mx)])) i)" for i
    by (simp add: whenPresent_def mouthBlock_eq appliedAll_Nil split: option.splits)
  have b: "whenPresent (brow rf) browBlock (sm, i) =
      Normal (sm, appliedAll (case brow rf of None \<Rightarrow> [] | Some b \<Rightarrow> [(''ParamBrowLY'', brow_l b), (''ParamBrowRY'', brow_r b)]) i)" for i
    by (simp add: whenPresent_def browBlock_eq appliedAll_Nil split: option.splits)
  show ?thesis
    by (simp add: e p m b passedParams_def appliedAll_append)
qed

lemma solverStrategy_eq:
  "solverStrategy solve landmarks (sm, im) =
     (case solve landmarks of
        Inl e \<Rightarrow> Throw e (sm, im)
      | Inr None \<Rightarrow> Normal (sm, im)
      | Inr (Some rf) \<Rightarrow>
          (case head rf of
             None \<Rightarrow> Normal (sm, appliedAll (passedParams rf) im)
           | Some h \<Rightarrow> Normal (smoothedHead h sm,
               appliedAll (passedParams rf) (appliedAll (headParams (smoothedHead h sm)) im))))"
proof -
  have "block [whenPresent (head rf) headBlock, whenPresent (eye rf) eyeBlock,
          whenPresent (pupil rf) pupilBlock, whenPresent (mouth rf) mouthBlock,
          whenPresent (brow rf) browBlock] (sm, im) =
      (case head rf of
         None \<Rightarrow> Normal (sm, appliedAll (passedParams rf) im)
       | Some h \<Rightarrow> Normal (smoothedHead h sm,
           appliedAll (passedParams rf) (appliedAll (headParams (smoothedHead h sm)) im)))" for rf
    unfolding block.simps(2) [of "whenPresent (head rf) headBlock"] whenPresent_headBlock
    by (simp only: solver_rest completion.case split: option.splits) simp
  then show ?thesis
    by (simp add: solverStrategy_def split: sum.splits option.splits)
qed

lemma solver_throw_unchanged:
  "solverStrategy solve landmarks st = Throw e st' \<Longrightarrow> st' = st"
  by (cases st) (auto simp: solverStrategy_eq split: sum.splits option.splits)

lemma fallback_throw_keeps_model:
  "fallbackStrategy landmarks (sm, im) = Throw e st' \<Longrightarrow> snd st' = im"
  by (simp add: fallbackStrategy_def Let_def deref_def assign_def apply_param_Normal
      split: option.splits) auto

lemma strategy_throw_keeps_model:
  "strategy K landmarks (sm, im) = Throw e st' \<Longrightarrow> snd st' = im"
  by (auto simp: strategy_def dest: solver_throw_unchanged fallback_throw_keeps_model
      split: option.splits)

lemma tryBody_throw_keeps_model:
  assumes "tryBody K landmarks model sm = Throw e r"
  shows "snd r = model"
proof (cases "internalModel model")
  case None
  with assms show ?thesis by (simp add: tryBody_def)
next
  case (Some im)
  with assms obtain st where st: "strategy K landmarks (sm, im) = Throw e st"
    and r: "r = (fst st, model\<lparr>internalModel := Some (snd st)\<rparr>)"
    by (auto simp: tryBody_def split: completion.splits)
  from strategy_throw_keeps_model [OF st] Some r show ?thesis
    by (cases model) simp
qed

lemma tryBody_solver_throw_keeps_smoother:
  assumes "tryBody (Some k) landmarks model sm = Throw e r" and "Face k = Some solve"
  shows "fst r = sm"
proof (cases "internalModel model")
  case None
  with assms show ?thesis by (simp add: tryBody_def)
next
  case (Some im)
  with assms obtain st where st: "solverStrategy solve landmarks (sm, im) = Throw e st"
    and r: "r = (fst st, model\<lparr>internalModel := Some (snd st)\<rparr>)"
    by (auto simp: tryBody_def strategy_def split: completion.splits)
  from solver_throw_unchanged [OF st] r show ?thesis by simp
qed

text \<open>
  Claim C9. The callback never ends by a throw, so a run over any list of detection results
  processes all of them. When the body of the \<open>try\<close> block throws, no parameter of the
  puppet has been written: the model and its pose are those before the frame. In the solver
  strategy the accumulators are unchanged as well.
\<close>

theorem C9_frame_exception_is_caught:
  "(\<exists>t'. updateLive2DParameters K res t = Normal t') \<and>
   (\<exists>t'. runFrames K rs t = Normal t') \<and>
   runFrames K (res # rs) t = runFrames K rs (stateOf (updateLive2DParameters K res t)) \<and>
   (modelRef t = Some model \<and> multiFaceLandmarks res = Some (landmarks # others) \<and>
    tryBody K landmarks model (smoother t) = Throw e r \<longrightarrow>
      (\<exists>t'. updateLive2DParameters K res t = Normal t' \<and> modelRef t' = modelRef t \<and>
         (\<forall>q. pose t' q = pose t q) \<and>
         (if K = Some k \<and> Face k \<noteq> None then smoother t' = smoother t else True)))"
proof -
  obtain t1 where t1: "updateLive2DParameters K res t = Normal t1"
    using update_Normal by blast
  have c: "runFrames K (res # rs) t = runFrames K rs (stateOf (updateLive2DParameters K res t))"
    by (simp add: t1)
  have d: "\<exists>t'. updateLive2DParameters K res t = Normal t' \<and> modelRef t' = modelRef t \<and>
         (\<forall>q. pose t' q = pose t q) \<and>
         (if K = Some k \<and> Face k \<noteq> None then smoother t' = smoother t else True)"
    if m: "modelRef t = Some model" and f: "multiFaceLandmarks res = Some (landmarks # others)"
      and thr: "tryBody K landmarks model (smoother t) = Throw e r"
  proof -
    have upd: "updateLive2DParameters K res t =
        Normal (t\<lparr>debugFrameCount := debugFrameCount t + 1, smoother := fst r, modelRef := Some (snd r)\<rparr>)"
      using m f thr by (simp add: updateLive2DParameters_def Let_def)
    have keep: "snd r = model"
      using thr by (rule tryBody_throw_keeps_model)
    have sm: "fst r = smoother t" if "K = Some k" and "Face k \<noteq> None"
      using that thr tryBody_solver_throw_keeps_smoother [of k landmarks model "smoother t" e r]
      by auto
    show ?thesis
      unfolding upd using keep m sm by (auto simp: pose_def)
  qed
  from t1 runFrames_Normal [of K rs t] c d show ?thesis by blast
qed

theorem C9_witness:
  "modelRef sampleTracker = Some \<lparr>internalModel = Some samplePuppet\<rparr> \<and>
   multiFaceLandmarks (faceFrame []) = Some ([] # []) \<and>
   tryBody None [] \<lparr>internalModel = Some samplePuppet\<rparr> (smoother sampleTracker) =
     Throw TypeError (initialSmoother, \<lparr>internalModel = Some samplePuppet\<rparr>) \<and>
   (\<exists>t'. updateLive2DParameters None (faceFrame []) sampleTracker = Normal t' \<and>
      modelRef t' = modelRef sampleTracker)"
proof -
  have a: "modelRef sampleTracker = Some \<lparr>internalModel = Some samplePuppet\<rparr>"
    by (simp add: sampleTracker_def)
  have b: "multiFaceLandmarks (faceFrame []) = Some ([] # [])"
    by (simp add: faceFrame_def)
  have c: "tryBody None [] \<lparr>internalModel = Some samplePuppet\<rparr> (smoother sampleTracker) =
     Throw TypeError (initialSmoother, \<lparr>internalModel = Some samplePuppet\<rparr>)"
    by (simp add: tryBody_def strategy_def fallbackStrategy_def Let_def landmarkAt_def deref_def
        sampleTracker_def)
  from C9_frame_exception_is_caught [of None "faceFrame []" sampleTracker "[]"
      "\<lparr>internalModel = Some samplePuppet\<rparr>" "[]" "[]" TypeError
      "(initialSmoother, \<lparr>internalModel = Some samplePuppet\<rparr>)"] a b c
  show ?thesis by blast
qed

text \<open>
  In the fallback strategy the accumulators assigned before the throw keep their new values:
  with a landmark array that ends before index 454 the head-position accumulator has moved
  when reading the ear landmark throws. The detector delivers 468 or 478
  landmarks, so arrays of this length do not come from it.
\<close>

lemma fallback_throw_keeps_assignments:
  "fallbackStrategy (replicate 300 \<lparr>pt_x = 0.6, pt_y = 0.5, pt_z = 0\<rparr>) (initialSmoother, samplePuppet) =
     Throw TypeError (initialSmoother\<lparr>smoothedHeadX := 3\<rparr>, samplePuppet)"
  by (simp add: fallbackStrategy_def Let_def deref_def landmarkAt_def assign_def initialSmoother_def
      SMOOTHING_FACTOR_def)

subsection \<open>Bounds of the head angles in the solver strategy\<close>

lemma average_inRange:
  assumes "inRange lo hi a" and "inRange lo hi r"
  shows "inRange lo hi (a + (r - a) * SMOOTHING_FACTOR)"
proof -
  have eq: "a + (r - a) * SMOOTHING_FACTOR = 0.7 * a + 0.3 * r"
    by (simp add: SMOOTHING_FACTOR_def field_simps)
  from assms have "0.7 * lo \<le> 0.7 * a" "0.3 * lo \<le> 0.3 * r" "0.7 * a \<le> 0.7 * hi" "0.3 * r \<le> 0.3 * hi"
    by (simp_all add: inRange_def)
  then show ?thesis
    unfolding eq inRange_def by linarith
qed

lemma clamp_inRange: "inRange (- 30) 30 (clamp (- 30) 30 v)"
  by (simp add: inRange_def clamp_def)

lemma smoothedHead_bounded:
  assumes "headBounded sm"
  shows "headBounded (smoothedHead h sm)"
  using assms
  by (simp add: headBounded_def smoothedHead_def average_inRange clamp_inRange)

lemma headParams_keep_bound:
  assumes "headBounded sm'" and "anglesBounded im"
  shows "anglesBounded (appliedAll (headParams sm') im)"
  using assms
  by (simp add: anglesBounded_def paramValue_appliedAll headParams_def headBounded_def boundedOpt_def)

lemma passedParams_miss_angles:
  "map_of (rev (passedParams rf)) ''ParamAngleX'' = None"
  "map_of (rev (passedParams rf)) ''ParamAngleY'' = None"
  "map_of (rev (passedParams rf)) ''ParamAngleZ'' = None"
  by (auto simp: passedParams_def map_of_eq_None_iff image_Un split: option.splits)

lemma passedParams_keep_bound:
  "anglesBounded (appliedAll (passedParams rf) im) = anglesBounded im"
  by (simp add: anglesBounded_def paramValue_appliedAll passedParams_miss_angles)

lemma solverStrategy_keeps_bounds:
  assumes "headBounded sm" and "anglesBounded im"
  shows "headBounded (fst (stateOf (solverStrategy solve landmarks (sm, im)))) \<and>
         anglesBounded (snd (stateOf (solverStrategy solve landmarks (sm, im))))"
  using assms
  by (simp add: solverStrategy_eq passedParams_keep_bound headParams_keep_bound smoothedHead_bounded
      split: sum.splits option.splits)

lemma poseBounded_ready:
  assumes "modelRef t = Some model" and "internalModel model = Some im"
  shows "poseBounded t = anglesBounded im"
  using assms by (simp add: poseBounded_def anglesBounded_def pose_def)

lemma solver_frame_keeps_bounds:
  assumes k: "Face k = Some solve" and hb: "headBounded (smoother t)" and pb: "poseBounded t"
    and upd: "updateLive2DParameters (Some k) res t = Normal t'"
  shows "headBounded (smoother t') \<and> poseBounded t'"
proof (cases "modelRef t")
  case None
  with upd hb pb show ?thesis
    by (auto simp: updateLive2DParameters_def Let_def poseBounded_def pose_def)
next
  case (Some model)
  note m = this
  show ?thesis
  proof (cases "noFace res")
    case True
    from upd hb pb show ?thesis
      unfolding update_noFace [OF True] by (auto simp: poseBounded_def pose_def)
  next
    case False
    then obtain landmarks others where f: "res = \<lparr>multiFaceLandmarks = Some (landmarks # others)\<rparr>"
      by (cases res; cases "multiFaceLandmarks res"; cases "the (multiFaceLandmarks res)")
        (auto simp: noFace_def)
    show ?thesis
    proof (cases "internalModel model")
      case None
      with upd m f hb pb show ?thesis
        by (auto simp: updateLive2DParameters_def Let_def tryBody_def poseBounded_def pose_def)
    next
      case (Some im)
      from pb have ab: "anglesBounded im"
        by (simp add: poseBounded_ready [OF m Some])
      from solverStrategy_keeps_bounds [OF hb ab, of solve landmarks] upd
      show ?thesis
        unfolding f update_face [OF m Some]
        by (auto simp: strategy_def k poseBounded_def anglesBounded_def pose_def)
    qed
  qed
qed

lemma solver_frames_keep_bounds:
  assumes k: "Face k = Some solve"
  shows "headBounded (smoother t) \<Longrightarrow> poseBounded t \<Longrightarrow>
     \<exists>t'. runFrames (Some k) rs t = Normal t' \<and> headBounded (smoother t') \<and> poseBounded t'"
proof (induction rs arbitrary: t)
  case Nil
  then show ?case by simp
next
  case (Cons res rs)
  obtain t1 where t1: "updateLive2DParameters (Some k) res t = Normal t1"
    using update_Normal by blast
  from solver_frame_keeps_bounds [OF k Cons.prems t1]
  have "headBounded (smoother t1)" "poseBounded t1" by simp_all
  from Cons.IH [OF this] t1 show ?case by simp
qed

text \<open>
  Claim C10. In the solver strategy the three head-angle accumulators start in [-30, 30]
  (at 0) and every frame keeps them there; the head block passes the accumulators themselves
  to ParamAngleX, ParamAngleY and ParamAngleZ, so the head angles of the puppet stay in
  [-30, 30] as well once they are there.
\<close>

theorem C10_solver_head_angles_bounded:
  "headBounded initialSmoother \<and>
   (Face k = Some solve \<and> headBounded (smoother t) \<and> poseBounded t \<longrightarrow>
      (\<exists>t'. runFrames (Some k) rs t = Normal t' \<and> headBounded (smoother t') \<and> poseBounded t')) \<and>
   (\<exists>sm' im'. headBlock h (sm, im) = Normal (sm', im') \<and>
      (if headBounded sm then headBounded sm' else True) \<and>
      map (paramValue im') [''ParamAngleX'', ''ParamAngleY'', ''ParamAngleZ''] =
        [if writable im ''ParamAngleX'' then Some (smoothedAngleX sm') else paramValue im ''ParamAngleX'',
         if writable im ''ParamAngleY'' then Some (smoothedAngleY sm') else paramValue im ''ParamAngleY'',
         if writable im ''ParamAngleZ'' then Some (smoothedAngleZ sm') else paramValue im ''ParamAngleZ''])"
proof -
  have a: "headBounded initialSmoother"
    by (simp add: headBounded_def initialSmoother_def inRange_def)
  have c: "\<exists>sm' im'. headBlock h (sm, im) = Normal (sm', im') \<and>
      (if headBounded sm then headBounded sm' else True) \<and>
      map (paramValue im') [''ParamAngleX'', ''ParamAngleY'', ''ParamAngleZ''] =
        [if writable im ''ParamAngleX'' then Some (smoothedAngleX sm') else paramValue im ''ParamAngleX'',
         if writable im ''ParamAngleY'' then Some (smoothedAngleY sm') else paramValue im ''ParamAngleY'',
         if writable im ''ParamAngleZ'' then Some (smoothedAngleZ sm') else paramValue im ''ParamAngleZ'']"
    by (simp add: headBlock_eq smoothedHead_bounded paramValue_appliedAll headParams_def)
  from a c solver_frames_keep_bounds [of k solve t rs] show ?thesis by blast
qed

theorem C10_witness:
  "Face \<lparr>Face = Some (steadySolver 45)\<rparr> = Some (steadySolver 45) \<and>
   headBounded (smoother sampleTracker) \<and> poseBounded sampleTracker \<and>
   (\<exists>t'. runFrames (Some \<lparr>Face = Some (steadySolver 45)\<rparr>) [faceFrame [], faceFrame []] sampleTracker = Normal t' \<and>
      headBounded (smoother t') \<and> poseBounded t')"
proof -
  have a: "headBounded (smoother sampleTracker)"
    by (simp add: sampleTracker_def headBounded_def initialSmoother_def inRange_def)
  have b: "poseBounded sampleTracker"
    by (simp add: sampleTracker_def poseBounded_def pose_def paramValue_def samplePuppet_def
        boundedOpt_def inRange_def)
  from C10_solver_head_angles_bounded [of "\<lparr>Face = Some (steadySolver 45)\<rparr>" "steadySolver 45"
      sampleTracker "[faceFrame [], faceFrame []]"] a b
  show ?thesis by simp
qed

subsection \<open>A frame of the solver strategy\<close>

lemma passedParams_miss_body:
  "map_of (rev (passedParams rf)) ''ParamBodyAngleX'' = None"
  "map_of (rev (passedParams rf)) ''ParamBodyAngleY'' = None"
  "map_of (rev (passedParams rf)) ''ParamBodyAngleZ'' = None"
  by (auto simp: passedParams_def map_of_eq_None_iff image_Un split: option.splits)

lemma solver_head_frame:
  assumes m: "modelRef t = Some model" and i: "internalModel model = Some im"
    and k: "Face k = Some solve" and s: "solve landmarks = Inr (Some rf)" and h: "head rf = Some h"
  shows "updateLive2DParameters (Some k) \<lparr>multiFaceLandmarks = Some (landmarks # others)\<rparr> t =
     Normal (t\<lparr>debugFrameCount := debugFrameCount t + 1,
               smoother := smoothedHead h (smoother t),
               modelRef := Some (model\<lparr>internalModel := Some
                 (appliedAll (passedParams rf) (appliedAll (headParams (smoothedHead h (smoother t))) im))\<rparr>)\<rparr>)"
  unfolding update_face [OF m i]
  by (simp add: strategy_def k solverStrategy_eq s h)

lemma solver_head_frame_pose:
  "pose (t\<lparr>debugFrameCount := c, smoother := sm',
            modelRef := Some (model\<lparr>internalModel := Some (appliedAll (passedParams rf) (appliedAll (headParams sm') im))\<rparr>)\<rparr>) q =
   (if writable im q
    then (case map_of (rev (passedParams rf)) q of
            None \<Rightarrow> (case map_of (rev (headParams sm')) q of None \<Rightarrow> paramValue im q | Some v \<Rightarrow> Some v)
          | Some v \<Rightarrow> Some v)
    else paramValue im q)"
  by (simp add: pose_def paramValue_appliedAll writable_appliedAll split: option.splits)

lemma pose_loaded:
  assumes "modelRef t = Some model" and "internalModel model = Some im"
  shows "pose t q = paramValue im q"
  using assms by (simp add: pose_def)

text \<open>
  Claim C3. In every frame of the solver strategy in which the solver returns head rotation
  degrees, each axis is clamped into [-30, 30] and the clamped value is the input of the
  moving average of that axis; solver degrees (45, -10, 5) enter the averages as (30, -10, 5).
\<close>

theorem C3_solver_frame_clamps_before_smoothing:
  assumes "modelRef t = Some model" and "internalModel model = Some im"
    and "Face k = Some solve" and "solve landmarks = Inr (Some rf)" and "head rf = Some h"
  shows "inRange (- 30) 30 (clamp (- 30) 30 v) \<and>
    (\<exists>sm' im'. solverStrategy solve landmarks (sm, im) = Normal (sm', im') \<and>
       smoothedAngleX sm' = smoothedAngleX sm + (clamp (- 30) 30 (deg_x (degrees h)) - smoothedAngleX sm) * SMOOTHING_FACTOR \<and>
       smoothedAngleY sm' = smoothedAngleY sm + (clamp (- 30) 30 (deg_y (degrees h)) - smoothedAngleY sm) * SMOOTHING_FACTOR \<and>
       smoothedAngleZ sm' = smoothedAngleZ sm + (clamp (- 30) 30 (deg_z (degrees h)) - smoothedAngleZ sm) * SMOOTHING_FACTOR) \<and>
    (\<exists>t'. updateLive2DParameters (Some k) \<lparr>multiFaceLandmarks = Some (landmarks # others)\<rparr> t = Normal t' \<and>
       smoothedAngleX (smoother t') =
         smoothedAngleX (smoother t) + (clamp (- 30) 30 (deg_x (degrees h)) - smoothedAngleX (smoother t)) * SMOOTHING_FACTOR \<and>
       smoothedAngleY (smoother t') =
         smoothedAngleY (smoother t) + (clamp (- 30) 30 (deg_y (degrees h)) - smoothedAngleY (smoother t)) * SMOOTHING_FACTOR \<and>
       smoothedAngleZ (smoother t') =
         smoothedAngleZ (smoother t) + (clamp (- 30) 30 (deg_z (degrees h)) - smoothedAngleZ (smoother t)) * SMOOTHING_FACTOR \<and>
       (if degrees h = \<lparr>deg_x = 45, deg_y = - 10, deg_z = 5\<rparr>
        then smoothedAngleX (smoother t') = smoothedAngleX (smoother t) + (30 - smoothedAngleX (smoother t)) * SMOOTHING_FACTOR \<and>
             smoothedAngleY (smoother t') = smoothedAngleY (smoother t) + (- 10 - smoothedAngleY (smoother t)) * SMOOTHING_FACTOR \<and>
             smoothedAngleZ (smoother t') = smoothedAngleZ (smoother t) + (5 - smoothedAngleZ (smoother t)) * SMOOTHING_FACTOR
        else True))"
proof -
  have a: "inRange (- 30) 30 (clamp (- 30) 30 v)"
    by (simp add: inRange_def clamp_def)
  have b: "\<exists>sm' im'. solverStrategy solve landmarks (sm, im) = Normal (sm', im') \<and>
       smoothedAngleX sm' = smoothedAngleX sm + (clamp (- 30) 30 (deg_x (degrees h)) - smoothedAngleX sm) * SMOOTHING_FACTOR \<and>
       smoothedAngleY sm' = smoothedAngleY sm + (clamp (- 30) 30 (deg_y (degrees h)) - smoothedAngleY sm) * SMOOTHING_FACTOR \<and>
       smoothedAngleZ sm' = smoothedAngleZ sm + (clamp (- 30) 30 (deg_z (degrees h)) - smoothedAngleZ sm) * SMOOTHING_FACTOR"
    by (simp add: solverStrategy_eq assms(4,5) smoothedHead_def)
  have c: "clamp (- 30) 30 45 = 30" "clamp (- 30) 30 (- 10) = - 10" "clamp (- 30) 30 5 = 5"
    by (simp_all add: clamp_def)
  have d: "\<exists>t'. updateLive2DParameters (Some k) \<lparr>multiFaceLandmarks = Some (landmarks # others)\<rparr> t = Normal t' \<and>
       smoothedAngleX (smoother t') =
         smoothedAngleX (smoother t) + (clamp (- 30) 30 (deg_x (degrees h)) - smoothedAngleX (smoother t)) * SMOOTHING_FACTOR \<and>
       smoothedAngleY (smoother t') =
         smoothedAngleY (smoother t) + (clamp (- 30) 30 (deg_y (degrees h)) - smoothedAngleY (smoother t)) * SMOOTHING_FACTOR \<and>
       smoothedAngleZ (smoother t') =
         smoothedAngleZ (smoother t) + (clamp (- 30) 30 (deg_z (degrees h)) - smoothedAngleZ (smoother t)) * SMOOTHING_FACTOR \<and>
       (if degrees h = \<lparr>deg_x = 45, deg_y = - 10, deg_z = 5\<rparr>
        then smoothedAngleX (smoother t') = smoothedAngleX (smoother t) + (30 - smoothedAngleX (smoother t)) * SMOOTHING_FACTOR \<and>
             smoothedAngleY (smoother t') = smoothedAngleY (smoother t) + (- 10 - smoothedAngleY (smoother t)) * SMOOTHING_FACTOR \<and>
             smoothedAngleZ (smoother t') = smoothedAngleZ (smoother t) + (5 - smoothedAngleZ (smoother t)) * SMOOTHING_FACTOR
        else True)"
    unfolding solver_head_frame [OF assms]
    by (simp add: smoothedHead_def c)
  from a b d show ?thesis by blast
qed

theorem C3_witness:
  "modelRef sampleTracker = Some \<lparr>internalModel = Some samplePuppet\<rparr> \<and>
   internalModel \<lparr>internalModel = Some samplePuppet\<rparr> = Some samplePuppet \<and>
   Face \<lparr>Face = Some scenarioSolver\<rparr> = Some scenarioSolver \<and>
   scenarioSolver sampleLandmarks =
     Inr (Some \<lparr>head = Some \<lparr>degrees = \<lparr>deg_x = 45, deg_y = - 10, deg_z = 5\<rparr>\<rparr>,
                eye = Some \<lparr>eye_l = 1, eye_r = 1\<rparr>, pupil = None, mouth = None, brow = None\<rparr>) \<and>
   (\<exists>t'. updateLive2DParameters (Some \<lparr>Face = Some scenarioSolver\<rparr>)
            \<lparr>multiFaceLandmarks = Some (sampleLandmarks # [])\<rparr> sampleTracker = Normal t' \<and>
      smoothedAngleX (smoother t') = 9 \<and> smoothedAngleY (smoother t') = - 3 \<and>
      smoothedAngleZ (smoother t') = 1.5)"
proof -
  have m: "modelRef sampleTracker = Some \<lparr>internalModel = Some samplePuppet\<rparr>"
    by (simp add: sampleTracker_def)
  have i: "internalModel \<lparr>internalModel = Some samplePuppet\<rparr> = Some samplePuppet"
    by simp
  have k: "Face \<lparr>Face = Some scenarioSolver\<rparr> = Some scenarioSolver"
    by simp
  have s: "scenarioSolver sampleLandmarks =
     Inr (Some \<lparr>head = Some \<lparr>degrees = \<lparr>deg_x = 45, deg_y = - 10, deg_z = 5\<rparr>\<rparr>,
                eye = Some \<lparr>eye_l = 1, eye_r = 1\<rparr>, pupil = None, mouth = None, brow = None\<rparr>)"
    by (simp add: scenarioSolver_def)
  have h: "head \<lparr>head = Some \<lparr>degrees = \<lparr>deg_x = 45, deg_y = - 10, deg_z = 5\<rparr>\<rparr>,
                eye = Some \<lparr>eye_l = 1, eye_r = 1\<rparr>, pupil = None, mouth = None, brow = None\<rparr> =
      Some \<lparr>degrees = \<lparr>deg_x = 45, deg_y = - 10, deg_z = 5\<rparr>\<rparr>"
    by simp
  have z: "smoother sampleTracker = initialSmoother"
    by (simp add: sampleTracker_def)
  from C3_solver_frame_clamps_before_smoothing [OF m i k s h, of 0 initialSmoother "[]"]
  obtain t' where
    "updateLive2DParameters (Some \<lparr>Face = Some scenarioSolver\<rparr>)
       \<lparr>multiFaceLandmarks = Some (sampleLandmarks # [])\<rparr> sampleTracker = Normal t'"
    "smoothedAngleX (smoother t') = 9" "smoothedAngleY (smoother t') = - 3"
    "smoothedAngleZ (smoother t') = 1.5"
    by (auto simp: z initialSmoother_def SMOOTHING_FACTOR_def)
  with m i k s show ?thesis by blast
qed

text \<open>
  Claim C2, as the code has it. In every frame of the solver strategy in which the solver
  returns head rotation degrees, the body target on each axis is 0.5 times the head
  accumulator as updated in the same frame (the moving average of the clamped solver angle).
  It is folded into the body accumulator of that axis, which is then the value passed to
  ParamBodyAngleX, ParamBodyAngleY and ParamBodyAngleZ.
\<close>

theorem C2_solver_frame_body_target:
  assumes "modelRef t = Some model" and "internalModel model = Some im"
    and "Face k = Some solve" and "solve landmarks = Inr (Some rf)" and "head rf = Some h"
  shows "\<exists>t'. updateLive2DParameters (Some k) \<lparr>multiFaceLandmarks = Some (landmarks # others)\<rparr> t = Normal t' \<and>
     smoothedAngleX (smoother t') =
       smoothedAngleX (smoother t) + (clamp (- 30) 30 (deg_x (degrees h)) - smoothedAngleX (smoother t)) * SMOOTHING_FACTOR \<and>
     smoothedAngleY (smoother t') =
       smoothedAngleY (smoother t) + (clamp (- 30) 30 (deg_y (degrees h)) - smoothedAngleY (smoother t)) * SMOOTHING_FACTOR \<and>
     smoothedAngleZ (smoother t') =
       smoothedAngleZ (smoother t) + (clamp (- 30) 30 (deg_z (degrees h)) - smoothedAngleZ (smoother t)) * SMOOTHING_FACTOR \<and>
     smoothedBodyAngleX (smoother t') =
       smoothedBodyAngleX (smoother t) + (0.5 * smoothedAngleX (smoother t') - smoothedBodyAngleX (smoother t)) * SMOOTHING_FACTOR \<and>
     smoothedBodyAngleY (smoother t') =
       smoothedBodyAngleY (smoother t) + (0.5 * smoothedAngleY (smoother t') - smoothedBodyAngleY (smoother t)) * SMOOTHING_FACTOR \<and>
     smoothedBodyAngleZ (smoother t') =
       smoothedBodyAngleZ (smoother t) + (0.5 * smoothedAngleZ (smoother t') - smoothedBodyAngleZ (smoother t)) * SMOOTHING_FACTOR \<and>
     map (pose t') [''ParamBodyAngleX'', ''ParamBodyAngleY'', ''ParamBodyAngleZ''] =
       [if writable im ''ParamBodyAngleX'' then Some (smoothedBodyAngleX (smoother t')) else pose t ''ParamBodyAngleX'',
        if writable im ''ParamBodyAngleY'' then Some (smoothedBodyAngleY (smoother t')) else pose t ''ParamBodyAngleY'',
        if writable im ''ParamBodyAngleZ'' then Some (smoothedBodyAngleZ (smoother t')) else pose t ''ParamBodyAngleZ'']"
proof -
  define sm' where "sm' = smoothedHead h (smoother t)"
  define t1 where "t1 = t\<lparr>debugFrameCount := debugFrameCount t + 1, smoother := sm',
      modelRef := Some (model\<lparr>internalModel := Some
        (appliedAll (passedParams rf) (appliedAll (headParams sm') im))\<rparr>)\<rparr>"
  have upd: "updateLive2DParameters (Some k) \<lparr>multiFaceLandmarks = Some (landmarks # others)\<rparr> t = Normal t1"
    unfolding t1_def sm'_def by (rule solver_head_frame [OF assms])
  have sm: "smoother t1 = sm'"
    by (simp add: t1_def)
  have ps: "pose t1 q =
      (if writable im q
       then (case map_of (rev (passedParams rf)) q of
               None \<Rightarrow> (case map_of (rev (headParams sm')) q of None \<Rightarrow> paramValue im q | Some v \<Rightarrow> Some v)
             | Some v \<Rightarrow> Some v)
       else paramValue im q)" for q
    unfolding t1_def by (rule solver_head_frame_pose)
  have body: "map (pose t1) [''ParamBodyAngleX'', ''ParamBodyAngleY'', ''ParamBodyAngleZ''] =
       [if writable im ''ParamBodyAngleX'' then Some (smoothedBodyAngleX sm') else pose t ''ParamBodyAngleX'',
        if writable im ''ParamBodyAngleY'' then Some (smoothedBodyAngleY sm') else pose t ''ParamBodyAngleY'',
        if writable im ''ParamBodyAngleZ'' then Some (smoothedBodyAngleZ sm') else pose t ''ParamBodyAngleZ'']"
    by (simp add: ps pose_loaded [OF assms(1,2)] passedParams_miss_body headParams_def)
  show ?thesis
  proof (rule exI [of _ t1], intro conjI)
    show "updateLive2DParameters (Some k) \<lparr>multiFaceLandmarks = Some (landmarks # others)\<rparr> t = Normal t1"
      by (rule upd)
    show "map (pose t1) [''ParamBodyAngleX'', ''ParamBodyAngleY'', ''ParamBodyAngleZ''] =
       [if writable im ''ParamBodyAngleX'' then Some (smoothedBodyAngleX (smoother t1)) else pose t ''ParamBodyAngleX'',
        if writable im ''ParamBodyAngleY'' then Some (smoothedBodyAngleY (smoother t1)) else pose t ''ParamBodyAngleY'',
        if writable im ''ParamBodyAngleZ'' then Some (smoothedBodyAngleZ (smoother t1)) else pose t ''ParamBodyAngleZ'']"
      unfolding sm by (rule body)
  qed (simp_all add: sm sm'_def smoothedHead_def)
qed

theorem C2_witness:
  "modelRef sampleTracker = Some \<lparr>internalModel = Some samplePuppet\<rparr> \<and>
   internalModel \<lparr>internalModel = Some samplePuppet\<rparr> = Some samplePuppet \<and>
   Face \<lparr>Face = Some (steadySolver 10)\<rparr> = Some (steadySolver 10) \<and>
   steadySolver 10 sampleLandmarks =
     Inr (Some \<lparr>head = Some \<lparr>degrees = \<lparr>deg_x = 10, deg_y = 10, deg_z = 10\<rparr>\<rparr>,
                eye = None, pupil = None, mouth = None, brow = None\<rparr>) \<and>
   (\<exists>t'. updateLive2DParameters (Some \<lparr>Face = Some (steadySolver 10)\<rparr>)
            \<lparr>multiFaceLandmarks = Some (sampleLandmarks # [])\<rparr> sampleTracker = Normal t' \<and>
      smoothedAngleX (smoother t') = 3 \<and> smoothedBodyAngleX (smoother t') = 0.45 \<and>
      pose t' ''ParamBodyAngleX'' = Some 0.45 \<and> pose t' ''ParamBodyAngleY'' = None)"
proof -
  have m: "modelRef sampleTracker = Some \<lparr>internalModel = Some samplePuppet\<rparr>"
    by (simp add: sampleTracker_def)
  have i: "internalModel \<lparr>internalModel = Some samplePuppet\<rparr> = Some samplePuppet"
    by simp
  have k: "Face \<lparr>Face = Some (steadySolver 10)\<rparr> = Some (steadySolver 10)"
    by simp
  have s: "steadySolver 10 sampleLandmarks =
     Inr (Some \<lparr>head = Some \<lparr>degrees = \<lparr>deg_x = 10, deg_y = 10, deg_z = 10\<rparr>\<rparr>,
                eye = None, pupil = None, mouth = None, brow = None\<rparr>)"
    by (simp add: steadySolver_def)
  have h: "head \<lparr>head = Some \<lparr>degrees = \<lparr>deg_x = 10, deg_y = 10, deg_z = 10\<rparr>\<rparr>,
                eye = None, pupil = None, mouth = None, brow = None\<rparr> =
      Some \<lparr>degrees = \<lparr>deg_x = 10, deg_y = 10, deg_z = 10\<rparr>\<rparr>"
    by simp
  have z: "smoother sampleTracker = initialSmoother"
    by (simp add: sampleTracker_def)
  have w: "writable samplePuppet ''ParamBodyAngleX''" "\<not> writable samplePuppet ''ParamBodyAngleY''"
    by (simp_all add: samplePuppet_def writable_def)
  have p: "pose sampleTracker ''ParamBodyAngleY'' = None"
    by (simp add: pose_def sampleTracker_def paramValue_def samplePuppet_def)
  from C2_solver_frame_body_target [OF m i k s h, of "[]"]
  obtain t' where
    "updateLive2DParameters (Some \<lparr>Face = Some (steadySolver 10)\<rparr>)
       \<lparr>multiFaceLandmarks = Some (sampleLandmarks # [])\<rparr> sampleTracker = Normal t'"
    "smoothedAngleX (smoother t') = 3" "smoothedBodyAngleX (smoother t') = 0.45"
    "pose t' ''ParamBodyAngleX'' = Some 0.45" "pose t' ''ParamBodyAngleY'' = None"
    by (auto simp: z w p initialSmoother_def SMOOTHING_FACTOR_def clamp_def)
  with m i k s show ?thesis by blast
qed

text \<open>
  The claim as the specification words it fails on the first frame with solver degrees
  (10, 10, 10): half the solver angle is 5 and its average from 0 would be 1.5, while the
  body accumulator after the frame is 0.45, the average of half the smoothed head angle 3.
\<close>

theorem C2_frame_counterexample:
  "smoothedBodyAngleX (smoother (stateOf (updateLive2DParameters (Some \<lparr>Face = Some (steadySolver 10)\<rparr>)
      (faceFrame sampleLandmarks) sampleTracker))) = 0.45 \<and>
   smoothedBodyAngleX (smoother (stateOf (updateLive2DParameters (Some \<lparr>Face = Some (steadySolver 10)\<rparr>)
      (faceFrame sampleLandmarks) sampleTracker))) \<noteq>
     smoothedBodyAngleX (smoother sampleTracker) +
       (0.5 * 10 - smoothedBodyAngleX (smoother sampleTracker)) * SMOOTHING_FACTOR"
proof -
  have m: "modelRef sampleTracker = Some \<lparr>internalModel = Some samplePuppet\<rparr>"
    by (simp add: sampleTracker_def)
  have i: "internalModel \<lparr>internalModel = Some samplePuppet\<rparr> = Some samplePuppet"
    by simp
  have k: "Face \<lparr>Face = Some (steadySolver 10)\<rparr> = Some (steadySolver 10)"
    by simp
  have s: "steadySolver 10 sampleLandmarks =
     Inr (Some \<lparr>head = Some \<lparr>degrees = \<lparr>deg_x = 10, deg_y = 10, deg_z = 10\<rparr>\<rparr>,
                eye = None, pupil = None, mouth = None, brow = None\<rparr>)"
    by (simp add: steadySolver_def)
  have h: "head \<lparr>head = Some \<lparr>degrees = \<lparr>deg_x = 10, deg_y = 10, deg_z = 10\<rparr>\<rparr>,
                eye = None, pupil = None, mouth = None, brow = None\<rparr> =
      Some \<lparr>degrees = \<lparr>deg_x = 10, deg_y = 10, deg_z = 10\<rparr>\<rparr>"
    by simp
  have z: "smoother sampleTracker = initialSmoother"
    by (simp add: sampleTracker_def)
  show ?thesis
    unfolding faceFrame_def solver_head_frame [OF m i k s h]
    by (simp add: z smoothedHead_def initialSmoother_def clamp_def SMOOTHING_FACTOR_def)
qed

subsection \<open>The same input over several frames\<close>

lemma settle_0: "settle v a 0 = a"
  by (simp add: settle_def)

lemma settle_Suc: "settle v a (Suc n) = settle v a n + (v - settle v a n) * SMOOTHING_FACTOR"
  unfolding settle_def SMOOTHING_FACTOR_def power_Suc
  by (rule geometric_step [symmetric])

lemma settle_limit: "(\<lambda>n. settle v a n) \<longlonglongrightarrow> v"
  unfolding settle_def by (rule geometric_limit)

lemma settle_fixed: "settle v v n = v"
  by (simp add: settle_def)

lemma iterate_settle:
  assumes inv: "\<And>s. P s \<Longrightarrow> P (F s)"
    and step: "\<And>s. P s \<Longrightarrow> f (F s) = f s + (c - f s) * SMOOTHING_FACTOR"
    and start: "P s"
  shows "f ((F ^^ n) s) = settle c (f s) n"
proof -
  have "P ((F ^^ n) s) \<and> f ((F ^^ n) s) = settle c (f s) n"
  proof (induction n)
    case 0
    show ?case by (simp add: start settle_0)
  next
    case (Suc n)
    then have p: "P ((F ^^ n) s)" and v: "f ((F ^^ n) s) = settle c (f s) n"
      by simp_all
    have "f ((F ^^ Suc n) s) = f ((F ^^ n) s) + (c - f ((F ^^ n) s)) * SMOOTHING_FACTOR"
      by (simp add: step [OF p])
    also have "\<dots> = settle c (f s) (Suc n)"
      by (simp only: v settle_Suc)
    finally show ?case
      using inv [OF p] by simp
  qed
  then show ?thesis by simp
qed

lemma fallback_channels_settle:
  fixes landmarks :: "landmark list"
  defines "F \<equiv> smoothedFallback landmarks"
    and "fcx \<equiv> (pt_x (landmarks ! 33) + pt_x (landmarks ! 263)) / 2"
    and "fcy \<equiv> (pt_y (landmarks ! 33) + pt_y (landmarks ! 263)) / 2"
  shows "smoothedHeadX ((F ^^ n) sm) = settle ((fcx - 0.5) * 100) (smoothedHeadX sm) n"
    and "smoothedHeadY ((F ^^ n) sm) = settle ((fcy - 0.5) * 100) (smoothedHeadY sm) n"
    and "smoothedAngleX ((F ^^ n) sm) = settle ((pt_x (landmarks ! 1) - fcx) * 200) (smoothedAngleX sm) n"
    and "smoothedAngleY ((F ^^ n) sm) = settle ((pt_y (landmarks ! 1) - fcy) * 200) (smoothedAngleY sm) n"
    and "smoothedAngleZ ((F ^^ n) sm) = settle ((pt_y (landmarks ! 234) - pt_y (landmarks ! 454)) * 200) (smoothedAngleZ sm) n"
    and "smoothedEyeX ((F ^^ n) sm) = settle ((pt_x (landmarks ! 1) - fcx) * 150) (smoothedEyeX sm) n"
    and "smoothedEyeY ((F ^^ n) sm) = settle ((pt_y (landmarks ! 1) - fcy) * 150) (smoothedEyeY sm) n"
    and "smoothedMouthOpen ((F ^^ n) sm) = settle (\<bar>pt_y (landmarks ! 13) - pt_y (landmarks ! 14)\<bar> * 40) (smoothedMouthOpen sm) n"
    and "smoothedLeftEyeOpen ((F ^^ n) sm) = settle (\<bar>pt_y (landmarks ! 159) - pt_y (landmarks ! 145)\<bar> * 30) (smoothedLeftEyeOpen sm) n"
    and "smoothedRightEyeOpen ((F ^^ n) sm) = settle (\<bar>pt_y (landmarks ! 386) - pt_y (landmarks ! 374)\<bar> * 30) (smoothedRightEyeOpen sm) n"
  by (rule iterate_settle [where P = "\<lambda>_. True"];
      simp add: F_def fcx_def fcy_def smoothedFallback_def Let_def)+

lemma solver_head_channels_settle:
  "smoothedAngleX ((smoothedHead h ^^ n) sm) = settle (clamp (- 30) 30 (deg_x (degrees h))) (smoothedAngleX sm) n"
  "smoothedAngleY ((smoothedHead h ^^ n) sm) = settle (clamp (- 30) 30 (deg_y (degrees h))) (smoothedAngleY sm) n"
  "smoothedAngleZ ((smoothedHead h ^^ n) sm) = settle (clamp (- 30) 30 (deg_z (degrees h))) (smoothedAngleZ sm) n"
  by (rule iterate_settle [where P = "\<lambda>_. True"]; simp add: smoothedHead_def)+

lemma solver_body_channels_settle:
  "smoothedAngleX sm = clamp (- 30) 30 (deg_x (degrees h)) \<Longrightarrow>
     smoothedBodyAngleX ((smoothedHead h ^^ n) sm) =
       settle (clamp (- 30) 30 (deg_x (degrees h)) * 0.5) (smoothedBodyAngleX sm) n"
  "smoothedAngleY sm = clamp (- 30) 30 (deg_y (degrees h)) \<Longrightarrow>
     smoothedBodyAngleY ((smoothedHead h ^^ n) sm) =
       settle (clamp (- 30) 30 (deg_y (degrees h)) * 0.5) (smoothedBodyAngleY sm) n"
  "smoothedAngleZ sm = clamp (- 30) 30 (deg_z (degrees h)) \<Longrightarrow>
     smoothedBodyAngleZ ((smoothedHead h ^^ n) sm) =
       settle (clamp (- 30) 30 (deg_z (degrees h)) * 0.5) (smoothedBodyAngleZ sm) n"
    apply (rule iterate_settle [where P = "\<lambda>s. smoothedAngleX s = clamp (- 30) 30 (deg_x (degrees h))"];
      simp add: smoothedHead_def)
   apply (rule iterate_settle [where P = "\<lambda>s. smoothedAngleY s = clamp (- 30) 30 (deg_y (degrees h))"];
      simp add: smoothedHead_def)
  apply (rule iterate_settle [where P = "\<lambda>s. smoothedAngleZ s = clamp (- 30) 30 (deg_z (degrees h))"];
      simp add: smoothedHead_def)
  done

lemma solver_frames:
  assumes k: "Face k = Some solve" and s: "solve landmarks = Inr (Some rf)" and h: "head rf = Some h"
  shows "ready t \<Longrightarrow> \<exists>t'. runFrames (Some k) (replicate n (faceFrame landmarks)) t = Normal t' \<and> ready t' \<and>
           smoother t' = (smoothedHead h ^^ n) (smoother t)"
proof (induction n arbitrary: t)
  case 0
  then show ?case by simp
next
  case (Suc n)
  from Suc.prems obtain model im where m: "modelRef t = Some model" "internalModel model = Some im"
    by (rule ready_cases)
  define t1 where "t1 = t\<lparr>debugFrameCount := debugFrameCount t + 1,
      smoother := smoothedHead h (smoother t),
      modelRef := Some (model\<lparr>internalModel := Some
        (appliedAll (passedParams rf) (appliedAll (headParams (smoothedHead h (smoother t))) im))\<rparr>)\<rparr>"
  have upd: "updateLive2DParameters (Some k) (faceFrame landmarks) t = Normal t1"
    unfolding t1_def faceFrame_def by (rule solver_head_frame [OF m k s h])
  have r1: "ready t1" and s1: "smoother t1 = smoothedHead h (smoother t)"
    by (simp_all add: t1_def ready_def)
  from Suc.IH [OF r1] upd s1 show ?case
    by (simp add: funpow_swap1)
qed

lemma fallback_run_smoother:
  assumes "ready t" and "454 < length landmarks"
  shows "smoother (stateOf (runFrames None (replicate n (faceFrame landmarks)) t)) =
           (smoothedFallback landmarks ^^ n) (smoother t)"
  using fallback_frames [OF assms(2) assms(1), of n] by auto

lemma solver_run_smoother:
  assumes "ready t" and "Face k = Some solve" and "solve landmarks = Inr (Some rf)" and "head rf = Some h"
  shows "smoother (stateOf (runFrames (Some k) (replicate n (faceFrame landmarks)) t)) =
           (smoothedHead h ^^ n) (smoother t)"
  using solver_frames [OF assms(2,3,4) assms(1), of n] by auto

text \<open>
  Claim C5. Feeding the same input \<open>v\<close> for n frames leaves an accumulator that started at
  \<open>a0\<close> at \<open>v + (a0 - v) * (1 - 0.3) ^ n\<close>, and the accumulator converges to \<open>v\<close>.
  This holds of each of the ten accumulators of the fallback strategy, with the input its
  formula gives for the landmarks, and of the three head accumulators of the solver strategy,
  with the clamped solver angle as input. The input of a body accumulator is half the head
  accumulator, so it is constant when the head accumulator rests at its input; then the
  body accumulator obeys the same law with half that value as input.
\<close>

theorem C5_constant_input_all_channels:
  "settle v a0 n = v + (a0 - v) * (1 - 0.3) ^ n \<and>
   (ready t \<and> 454 < length landmarks \<longrightarrow>
     (let noseTip = landmarks ! 1; leftEye = landmarks ! 33; rightEye = landmarks ! 263;
          leftEar = landmarks ! 234; rightEar = landmarks ! 454;
          upperLip = landmarks ! 13; lowerLip = landmarks ! 14;
          leftEyeTop = landmarks ! 159; leftEyeBottom = landmarks ! 145;
          rightEyeTop = landmarks ! 386; rightEyeBottom = landmarks ! 374;
          faceCenterX = (pt_x leftEye + pt_x rightEye) / 2;
          faceCenterY = (pt_y leftEye + pt_y rightEye) / 2;
          channels =
            [(smoothedHeadX, (faceCenterX - 0.5) * 100),
             (smoothedHeadY, (faceCenterY - 0.5) * 100),
             (smoothedAngleX, (pt_x noseTip - faceCenterX) * 200),
             (smoothedAngleY, (pt_y noseTip - faceCenterY) * 200),
             (smoothedAngleZ, (pt_y leftEar - pt_y rightEar) * 200),
             (smoothedEyeX, (pt_x noseTip - faceCenterX) * 150),
             (smoothedEyeY, (pt_y noseTip - faceCenterY) * 150),
             (smoothedMouthOpen, \<bar>pt_y upperLip - pt_y lowerLip\<bar> * 40),
             (smoothedLeftEyeOpen, \<bar>pt_y leftEyeTop - pt_y leftEyeBottom\<bar> * 30),
             (smoothedRightEyeOpen, \<bar>pt_y rightEyeTop - pt_y rightEyeBottom\<bar> * 30)]
      in (\<exists>t'. runFrames None (replicate n (faceFrame landmarks)) t = Normal t' \<and>
            list_all (\<lambda>c. fst c (smoother t') = settle (snd c) (fst c (smoother t)) n) channels) \<and>
         list_all (\<lambda>c. (\<lambda>j. fst c (smoother (stateOf (runFrames None (replicate j (faceFrame landmarks)) t))))
                      \<longlonglongrightarrow> snd c) channels)) \<and>
   (ready t \<and> Face k = Some solve \<and> solve landmarks = Inr (Some rf) \<and> head rf = Some h \<longrightarrow>
     (let targetAngleX = clamp (- 30) 30 (deg_x (degrees h));
          targetAngleY = clamp (- 30) 30 (deg_y (degrees h));
          targetAngleZ = clamp (- 30) 30 (deg_z (degrees h));
          heads = [(smoothedAngleX, targetAngleX), (smoothedAngleY, targetAngleY),
                   (smoothedAngleZ, targetAngleZ)];
          bodies = [(smoothedAngleX, smoothedBodyAngleX, targetAngleX),
                    (smoothedAngleY, smoothedBodyAngleY, targetAngleY),
                    (smoothedAngleZ, smoothedBodyAngleZ, targetAngleZ)]
      in (\<exists>t'. runFrames (Some k) (replicate n (faceFrame landmarks)) t = Normal t' \<and>
            list_all (\<lambda>c. fst c (smoother t') = settle (snd c) (fst c (smoother t)) n) heads \<and>
            list_all (\<lambda>c. if fst c (smoother t) = snd (snd c)
                          then fst (snd c) (smoother t') = settle (snd (snd c) * 0.5) (fst (snd c) (smoother t)) n
                          else True) bodies) \<and>
         list_all (\<lambda>c. (\<lambda>j. fst c (smoother (stateOf (runFrames (Some k) (replicate j (faceFrame landmarks)) t))))
                      \<longlonglongrightarrow> snd c) heads \<and>
         list_all (\<lambda>c. if fst c (smoother t) = snd (snd c)
                       then (\<lambda>j. fst (snd c) (smoother (stateOf (runFrames (Some k) (replicate j (faceFrame landmarks)) t))))
                              \<longlonglongrightarrow> snd (snd c) * 0.5
                       else True) bodies))"
  apply (intro conjI impI)
  subgoal by (simp add: settle_def)
  subgoal
    using fallback_frames [of landmarks t n]
    by (auto simp: Let_def fallback_channels_settle fallback_run_smoother settle_limit)
  subgoal
    using solver_frames [of k solve landmarks rf h t n]
    by (auto simp: Let_def solver_head_channels_settle solver_body_channels_settle
        solver_run_smoother settle_limit)
  done

theorem C5_witness_all_channels:
  "ready bareTracker \<and> 454 < length sampleLandmarks \<and>
   (\<exists>t'. runFrames None (replicate 4 (faceFrame sampleLandmarks)) bareTracker = Normal t' \<and>
      smoothedAngleX (smoother t') = 7.599 \<and> smoothedMouthOpen (smoother t') = 0.8 - 0.8 * 0.2401) \<and>
   ready steadyTracker \<and> Face \<lparr>Face = Some (steadySolver 10)\<rparr> = Some (steadySolver 10) \<and>
   steadySolver 10 sampleLandmarks =
     Inr (Some \<lparr>head = Some \<lparr>degrees = \<lparr>deg_x = 10, deg_y = 10, deg_z = 10\<rparr>\<rparr>,
                eye = None, pupil = None, mouth = None, brow = None\<rparr>) \<and>
   smoothedAngleX (smoother steadyTracker) = clamp (- 30) 30 10 \<and>
   (\<exists>t'. runFrames (Some \<lparr>Face = Some (steadySolver 10)\<rparr>) (replicate 2 (faceFrame sampleLandmarks)) steadyTracker = Normal t' \<and>
      smoothedAngleX (smoother t') = 10 \<and> smoothedBodyAngleX (smoother t') = 2.55)"
proof -
  have r: "ready bareTracker"
    by (simp add: ready_def bareTracker_def)
  have l: "454 < length sampleLandmarks"
    by (simp add: sampleLandmarks_length)
  have z: "smoother bareTracker = initialSmoother"
    by (simp add: bareTracker_def)
  from C5_constant_input_all_channels [of 0 0 4 bareTracker sampleLandmarks "\<lparr>Face = None\<rparr>"
      "steadySolver 0" "\<lparr>head = None, eye = None, pupil = None, mouth = None, brow = None\<rparr>"
      "\<lparr>degrees = \<lparr>deg_x = 0, deg_y = 0, deg_z = 0\<rparr>\<rparr>"] r l
  have fb: "\<exists>t'. runFrames None (replicate 4 (faceFrame sampleLandmarks)) bareTracker = Normal t' \<and>
      smoothedAngleX (smoother t') = 7.599 \<and> smoothedMouthOpen (smoother t') = 0.8 - 0.8 * 0.2401"
    by (auto simp: Let_def z initialSmoother_def sampleLandmarks_nth samplePoint_def settle_def power4_eq_xxxx)
  have rs: "ready steadyTracker"
    by (simp add: ready_def steadyTracker_def)
  have k: "Face \<lparr>Face = Some (steadySolver 10)\<rparr> = Some (steadySolver 10)"
    by simp
  have s: "steadySolver 10 sampleLandmarks =
     Inr (Some \<lparr>head = Some \<lparr>degrees = \<lparr>deg_x = 10, deg_y = 10, deg_z = 10\<rparr>\<rparr>,
                eye = None, pupil = None, mouth = None, brow = None\<rparr>)"
    by (simp add: steadySolver_def)
  have c: "smoothedAngleX (smoother steadyTracker) = clamp (- 30) 30 10"
    by (simp add: steadyTracker_def clamp_def)
  have zs: "smoother steadyTracker =
      initialSmoother\<lparr>smoothedAngleX := 10, smoothedAngleY := 10, smoothedAngleZ := 10\<rparr>"
    by (simp add: steadyTracker_def)
  from C5_constant_input_all_channels [of 0 0 2 steadyTracker sampleLandmarks
      "\<lparr>Face = Some (steadySolver 10)\<rparr>" "steadySolver 10"
      "\<lparr>head = Some \<lparr>degrees = \<lparr>deg_x = 10, deg_y = 10, deg_z = 10\<rparr>\<rparr>,
        eye = None, pupil = None, mouth = None, brow = None\<rparr>"
      "\<lparr>degrees = \<lparr>deg_x = 10, deg_y = 10, deg_z = 10\<rparr>\<rparr>"] rs k s
  have sv: "\<exists>t'. runFrames (Some \<lparr>Face = Some (steadySolver 10)\<rparr>) (replicate 2 (faceFrame sampleLandmarks)) steadyTracker = Normal t' \<and>
      smoothedAngleX (smoother t') = 10 \<and> smoothedBodyAngleX (smoother t') = 2.55"
    by (auto simp: Let_def zs initialSmoother_def clamp_def settle_def power2_eq_square)
  from r l fb rs k s c sv show ?thesis by blast
qed

end
